theory Spec2Isabelle
  imports Main "HOL-Library.Word"
begin

unbundle bit_operations_syntax

section \<open>Payment reconciliation of the admissions portal\<close>

text \<open>
  A shallow embedding of the payment views of \<^verbatim>\<open>admissions/views.py\<close> and of the
  models they touch (\<^verbatim>\<open>admissions/models.py\<close>). A leading underscore of a Python
  name is dropped (\<^verbatim>\<open>_map_phonepe_status\<close> is \<open>map_phonepe_status\<close>); the model field
  \<^verbatim>\<open>Payment.method\<close> is \<open>pay_method\<close> and the primary keys are \<open>payment_pk\<close> and
  \<open>admission_pk\<close>.

  Conventions of the model.
  \<^item> A Python \<^verbatim>\<open>str\<close> is a \<open>string\<close> whose characters are code points below 256;
    \<^verbatim>\<open>bytes\<close> are lists of 8-bit words.
  \<^item> A JSON value read by the views is null, a boolean, an integer or a string
    (\<open>scalar\<close>), or an object of such values; arrays, floats and deeper nesting
    than the \<^verbatim>\<open>data\<close> object are not represented.
  \<^item> The database is the two tables the views write, rows in primary-key order.
    \<^verbatim>\<open>save(update_fields=[...])\<close> writes exactly the listed columns of the row with
    the object's primary key. Column length limits are not modelled.
    \<^verbatim>\<open>Payment.admission\<close> is a non-null foreign key, so \<^verbatim>\<open>payment.admission\<close> always
    exists; it is represented by its key \<open>admission_id\<close>.
  \<^item> The database backend is SQLite, which a Django project has unless its settings
    module (not among the sources) names another, with Django's default of one
    transaction per statement. So an integer from \<open>2 ^ 63\<close> on, passed as the value of
    a lookup, raises \<^verbatim>\<open>OverflowError\<close>; and what a \<^verbatim>\<open>save\<close> has written stays written
    when a later statement of the same request raises.
  \<^item> An exception that no handler of the source catches ends the request: the view's
    response is \<open>Raised e\<close>, beside the database as the request left it.
  \<^item> What the outside world answers during one request (the clock, the HTTP
    transports) is the record \<open>env\<close>; \<^verbatim>\<open>hashlib\<close>, \<^verbatim>\<open>hmac\<close>, \<^verbatim>\<open>base64\<close> and
    \<^verbatim>\<open>json.loads\<close> are the record \<open>pylib\<close>.
\<close>

subsection \<open>Python values\<close>

datatype exn =
    AttributeError
  | TypeError
  | ValueError
  | UnicodeDecodeError
  | IntegrityError
  | DoesNotExist
  | OverflowError
  | TimeoutError
  | RemoteDisconnected

datatype scalar = PyNone | PyBool bool | PyInt int | PyStr string

type_synonym pydict = "(string \<times> scalar) list"

type_synonym bytes = "8 word list"

text \<open>Truth value of a Python object, as \<^verbatim>\<open>not x\<close> and \<^verbatim>\<open>x or y\<close> use it.\<close>

fun truthy :: "scalar \<Rightarrow> bool" where
  "truthy PyNone = False"
| "truthy (PyBool b) = b"
| "truthy (PyInt i) = (i \<noteq> 0)"
| "truthy (PyStr s) = (s \<noteq> [])"

definition py_or :: "scalar \<Rightarrow> scalar \<Rightarrow> scalar" where
  "py_or a b = (if truthy a then a else b)"

text \<open>\<^verbatim>\<open>d.get(k, default)\<close>; \<^verbatim>\<open>d.get(k)\<close> is \<open>dict_get d k PyNone\<close>.\<close>

definition dict_get :: "pydict \<Rightarrow> string \<Rightarrow> scalar \<Rightarrow> scalar" where
  "dict_get d k dflt = (case map_of d k of None \<Rightarrow> dflt | Some v \<Rightarrow> v)"

fun str_nat :: "nat \<Rightarrow> string" where
  "str_nat n =
     (if n < 10 then [''0123456789'' ! n]
      else str_nat (n div 10) @ [''0123456789'' ! (n mod 10)])"

text \<open>\<^verbatim>\<open>str(x)\<close>, which is also what an f-string field \<^verbatim>\<open>{x}\<close> renders.\<close>

fun py_str :: "scalar \<Rightarrow> string" where
  "py_str PyNone = ''None''"
| "py_str (PyBool b) = (if b then ''True'' else ''False'')"
| "py_str (PyInt i) = (if i < 0 then CHR ''-'' # str_nat (nat (- i)) else str_nat (nat i))"
| "py_str (PyStr s) = s"

definition is_ascii :: "string \<Rightarrow> bool" where
  "is_ascii s = list_all (\<lambda>c. (of_char c :: nat) < 128) s"

text \<open>
  \<^verbatim>\<open>str.upper()\<close> on code points below 256. The result is a list of code points:
  two of the upper-case forms (of U+00B5 and U+00FF) lie beyond 255, and U+00DF
  becomes two letters.
\<close>

definition upper_cp :: "char \<Rightarrow> nat list" where
  "upper_cp c =
     (let n = (of_char c :: nat) in
      if 97 \<le> n \<and> n \<le> 122 then [n - 32]
      else if n = 181 then [924]
      else if n = 223 then [83, 83]
      else if 224 \<le> n \<and> n \<le> 254 \<and> n \<noteq> 247 then [n - 32]
      else if n = 255 then [376]
      else [n])"

definition str_upper :: "string \<Rightarrow> nat list" where
  "str_upper s = concat (map upper_cp s)"

definition code_points :: "string \<Rightarrow> nat list" where
  "code_points s = map of_char s"

text \<open>\<^verbatim>\<open>str.lower()\<close> on code points below 256, as a list of code points.\<close>

definition lower_cp :: "char \<Rightarrow> nat" where
  "lower_cp c =
     (let n = (of_char c :: nat) in
      if (65 \<le> n \<and> n \<le> 90) \<or> (192 \<le> n \<and> n \<le> 222 \<and> n \<noteq> 215)
      then n + 32 else n)"

definition str_lower :: "string \<Rightarrow> nat list" where
  "str_lower s = map lower_cp s"

text \<open>\<^verbatim>\<open>s.encode("utf-8")\<close> for code points below 256.\<close>

definition utf8_char :: "char \<Rightarrow> bytes" where
  "utf8_char c =
     (if (of_char c :: nat) < 128 then [of_char c]
      else [0xC0 OR drop_bit 6 (of_char c), 0x80 OR (of_char c AND 0x3F)])"

definition utf8 :: "string \<Rightarrow> bytes" where
  "utf8 s = concat (map utf8_char s)"

text \<open>
  \<^verbatim>\<open>hmac.compare_digest(a, b)\<close> on two \<^verbatim>\<open>str\<close>: it raises \<^verbatim>\<open>TypeError\<close> unless both
  are ASCII, and compares them otherwise.
\<close>

definition compare_digest :: "string \<Rightarrow> string \<Rightarrow> exn + bool" where
  "compare_digest a b = (if is_ascii a \<and> is_ascii b then Inr (a = b) else Inl TypeError)"

subsection \<open>Gateway payloads and the standard library\<close>

text \<open>
  A decoded gateway payload: \<open>PDict outer d\<close> is a JSON object with the scalar entries
  \<open>outer\<close> and the entry \<^verbatim>\<open>data\<close> described by \<open>d\<close>; \<open>POther v\<close> is a JSON document that
  is not an object.
\<close>

datatype data_field = NoData | DataDict pydict | DataOther scalar

datatype payload = PDict pydict data_field | POther scalar

text \<open>
  The standard-library functions the views call:
  \<^item> \<open>sha256_hexdigest raw\<close> is \<^verbatim>\<open>hashlib.sha256(raw).hexdigest()\<close>;
  \<^item> \<open>hmac_sha256_hexdigest key msg\<close> is \<^verbatim>\<open>hmac.new(key, msg, hashlib.sha256).hexdigest()\<close>;
  \<^item> \<open>b64_json_loads s\<close> is \<^verbatim>\<open>json.loads(base64.b64decode(s).decode("utf-8"))\<close>, and
    \<open>None\<close> where that raises \<^verbatim>\<open>ValueError\<close> or \<^verbatim>\<open>UnicodeDecodeError\<close>.
\<close>

record pylib =
  sha256_hexdigest :: "bytes \<Rightarrow> string"
  hmac_sha256_hexdigest :: "bytes \<Rightarrow> bytes \<Rightarrow> string"
  b64_json_loads :: "string \<Rightarrow> payload option"

subsection \<open>Models\<close>

datatype FeeStatus = FeePending | FeePaid

datatype PaymentStatus = Pending | Paid | Failed

datatype PaymentMethod = UPI | Cash | Bank | Online

datatype PaymentGateway = Razorpay | PhonePe

text \<open>The columns of \<^verbatim>\<open>Admission\<close> that the payment views read or write.\<close>

record admission =
  admission_pk :: nat
  fee_amount :: nat
  fee_paid :: nat
  fee_status :: FeeStatus

text \<open>
  \<^verbatim>\<open>Payment\<close>. A blank \<^verbatim>\<open>gateway\<close> or \<^verbatim>\<open>method\<close> is \<open>None\<close>; \<open>gateway_response\<close> holds
  the payload whose \<^verbatim>\<open>json.dumps\<close> text the column stores (\<open>None\<close> for the blank
  column); times are clock readings.
\<close>

record payment =
  payment_pk :: nat
  admission_id :: nat
  amount :: nat
  gateway :: "PaymentGateway option"
  status :: PaymentStatus
  pay_method :: "PaymentMethod option"
  reference_id :: string
  order_id :: string
  payment_id :: string
  signature :: string
  gateway_response :: "payload option"
  notified_at :: "nat option"
  created_at :: nat
  paid_at :: "nat option"

record db =
  payments :: "payment list"
  admissions :: "admission list"

datatype payment_field =
    F_gateway | F_payment_id | F_reference_id | F_gateway_response
  | F_status | F_paid_at | F_signature | F_notified_at

fun copy_payment_field :: "payment \<Rightarrow> payment_field \<Rightarrow> payment \<Rightarrow> payment" where
  "copy_payment_field src F_gateway row = row\<lparr>gateway := gateway src\<rparr>"
| "copy_payment_field src F_payment_id row = row\<lparr>payment_id := payment_id src\<rparr>"
| "copy_payment_field src F_reference_id row = row\<lparr>reference_id := reference_id src\<rparr>"
| "copy_payment_field src F_gateway_response row = row\<lparr>gateway_response := gateway_response src\<rparr>"
| "copy_payment_field src F_status row = row\<lparr>status := status src\<rparr>"
| "copy_payment_field src F_paid_at row = row\<lparr>paid_at := paid_at src\<rparr>"
| "copy_payment_field src F_signature row = row\<lparr>signature := signature src\<rparr>"
| "copy_payment_field src F_notified_at row = row\<lparr>notified_at := notified_at src\<rparr>"

text \<open>\<^verbatim>\<open>obj.save(update_fields=fs)\<close>: an UPDATE of the columns \<open>fs\<close> where the key matches.\<close>

definition save_payment :: "payment_field list \<Rightarrow> payment \<Rightarrow> db \<Rightarrow> db" where
  "save_payment fs p d =
     d\<lparr>payments :=
         map (\<lambda>row. if payment_pk row = payment_pk p
                     then fold (copy_payment_field p) fs row else row) (payments d)\<rparr>"

text \<open>
  \<^verbatim>\<open>admission.fee_status = st; admission.fee_paid = n;
  admission.save(update_fields=["fee_status", "fee_paid"])\<close> for the admission with key \<open>k\<close>.
\<close>

definition save_admission :: "nat \<Rightarrow> FeeStatus \<Rightarrow> nat \<Rightarrow> db \<Rightarrow> db" where
  "save_admission k st n d =
     d\<lparr>admissions :=
         map (\<lambda>row. if admission_pk row = k
                     then row\<lparr>fee_status := st, fee_paid := n\<rparr> else row) (admissions d)\<rparr>"

text \<open>\<^verbatim>\<open>Payment.objects.filter(order_id=k).first()\<close> and its sibling by admission.\<close>

text \<open>
  The largest integer the database accepts as the value of a lookup; a greater one
  raises \<^verbatim>\<open>OverflowError\<close> before any row is read.
\<close>

definition max_db_integer :: nat where
  "max_db_integer = 2 ^ 63 - 1"

definition payment_by_order :: "db \<Rightarrow> string \<Rightarrow> payment option" where
  "payment_by_order d k = find (\<lambda>p. order_id p = k) (payments d)"

definition payment_by_admission :: "db \<Rightarrow> nat \<Rightarrow> payment option" where
  "payment_by_admission d a = find (\<lambda>p. admission_id p = a) (payments d)"

text \<open>The stored row with a given primary key.\<close>

definition payment_row :: "db \<Rightarrow> nat \<Rightarrow> payment option" where
  "payment_row d k = find (\<lambda>p. payment_pk p = k) (payments d)"

text \<open>The stored admission with a given primary key.\<close>

definition admission_row :: "db \<Rightarrow> nat \<Rightarrow> admission option" where
  "admission_row d k = find (\<lambda>a. admission_pk a = k) (admissions d)"

subsection \<open>Settings and the outside world\<close>

record settings =
  RAZORPAY_KEY_SECRET :: string
  PHONEPE_MERCHANT_ID :: string
  PHONEPE_SALT_KEY :: string
  PHONEPE_SALT_INDEX :: string
  PHONEPE_BASE_URL :: string
  PHONEPE_VERIFY_CALLBACK :: bool
  SEND_PAYMENT_NOTIFICATIONS :: bool
  SMS_PROVIDER :: string
  TWILIO_ACCOUNT_SID :: string
  TWILIO_AUTH_TOKEN :: string
  TWILIO_FROM_NUMBER :: string
  WHATSAPP_PROVIDER :: string
  WHATSAPP_PHONE_NUMBER_ID :: string
  WHATSAPP_ACCESS_TOKEN :: string

text \<open>
  What \<^verbatim>\<open>urllib.request.urlopen\<close> does for a notification request: it returns a
  response with a status, raises \<^verbatim>\<open>URLError\<close> (of which \<^verbatim>\<open>HTTPError\<close> is a subclass), or
  raises an exception that is not a \<^verbatim>\<open>URLError\<close>. \<^verbatim>\<open>urlopen\<close> wraps in \<^verbatim>\<open>URLError\<close> what goes
  wrong while the request is sent, not what goes wrong while the response is read: a
  read that times out (\<^verbatim>\<open>TimeoutError\<close>) or a connection closed without a response
  (\<^verbatim>\<open>RemoteDisconnected\<close>) reaches the caller as it is.
\<close>

datatype transport = Responded nat | URLError | Escapes exn

text \<open>
  What the status request of the poll path does: \<^verbatim>\<open>HTTPError\<close> with its body,
  \<^verbatim>\<open>URLError\<close> with its text, an exception that is not a \<^verbatim>\<open>URLError\<close>, a body that
  \<^verbatim>\<open>json.loads\<close> rejects, or a decoded body.
\<close>

datatype fetch_result =
    FetchHTTPError string
  | FetchURLError string
  | FetchEscapes exn
  | FetchNotJson
  | FetchBody payload

text \<open>
  One request's view of the outside world: \<open>now_paid\<close> and \<open>now_notified\<close> are the
  readings of \<^verbatim>\<open>timezone.now()\<close> where \<^verbatim>\<open>paid_at\<close> and \<^verbatim>\<open>notified_at\<close> are assigned;
  \<open>status_fetch url x_verify\<close> answers the status request sent to \<open>url\<close> with the
  header \<^verbatim>\<open>X-VERIFY\<close>.
\<close>

record env =
  now_paid :: nat
  now_notified :: nat
  sms_transport :: transport
  whatsapp_transport :: transport
  status_fetch :: "string \<Rightarrow> string \<Rightarrow> fetch_result"

subsection \<open>Notifier\<close>

datatype channel = SMS | WhatsApp

text \<open>One outbound notification request and whether it counted as sent.\<close>

type_synonym dispatch = "channel \<times> bool"

definition sms_configured :: "settings \<Rightarrow> bool" where
  "sms_configured cfg =
     (if str_lower (SMS_PROVIDER cfg) = code_points ''twilio''
      then TWILIO_ACCOUNT_SID cfg \<noteq> [] \<and> TWILIO_AUTH_TOKEN cfg \<noteq> [] \<and> TWILIO_FROM_NUMBER cfg \<noteq> []
      else False)"

definition whatsapp_configured :: "settings \<Rightarrow> bool" where
  "whatsapp_configured cfg =
     (if str_lower (WHATSAPP_PROVIDER cfg) = code_points ''cloud''
      then WHATSAPP_PHONE_NUMBER_ID cfg \<noteq> [] \<and> WHATSAPP_ACCESS_TOKEN cfg \<noteq> []
      else False)"

text \<open>
  \<^verbatim>\<open>with urlopen(...) as response: return 200 <= response.status < 300\<close> under
  \<^verbatim>\<open>except urllib.error.URLError: return False\<close>, the only handler: any other exception
  leaves the sender.
\<close>

fun delivered :: "transport \<Rightarrow> exn + bool" where
  "delivered (Responded st) = Inr (200 \<le> st \<and> st < 300)"
| "delivered URLError = Inr False"
| "delivered (Escapes x) = Inl x"

text \<open>
  The senders: what they return or raise, and the request they sent with whether it
  counted as sent.
\<close>

definition send_sms_twilio :: "settings \<Rightarrow> env \<Rightarrow> (exn + bool) \<times> dispatch list" where
  "send_sms_twilio cfg e =
     (if TWILIO_ACCOUNT_SID cfg = [] \<or> TWILIO_AUTH_TOKEN cfg = [] \<or> TWILIO_FROM_NUMBER cfg = []
      then (Inr False, [])
      else (delivered (sms_transport e), [(SMS, delivered (sms_transport e) = Inr True)]))"

definition send_whatsapp_cloud :: "settings \<Rightarrow> env \<Rightarrow> (exn + bool) \<times> dispatch list" where
  "send_whatsapp_cloud cfg e =
     (if WHATSAPP_PHONE_NUMBER_ID cfg = [] \<or> WHATSAPP_ACCESS_TOKEN cfg = []
      then (Inr False, [])
      else (delivered (whatsapp_transport e),
            [(WhatsApp, delivered (whatsapp_transport e) = Inr True)]))"

definition send_sms :: "settings \<Rightarrow> env \<Rightarrow> (exn + bool) \<times> dispatch list" where
  "send_sms cfg e =
     (if str_lower (SMS_PROVIDER cfg) = code_points ''twilio'' then send_sms_twilio cfg e
      else (Inr False, []))"

definition send_whatsapp :: "settings \<Rightarrow> env \<Rightarrow> (exn + bool) \<times> dispatch list" where
  "send_whatsapp cfg e =
     (if str_lower (WHATSAPP_PROVIDER cfg) = code_points ''cloud'' then send_whatsapp_cloud cfg e
      else (Inr False, []))"

text \<open>
  \<^verbatim>\<open>_maybe_send_payment_notifications(admission, payment)\<close>: \<open>p\<close> is the payment object
  in memory. The result is the database, the requests sent, in order, and the
  exception that left the function, if one did: the function has no handler of its
  own, so what a sender raises ends it where it stands. The text of the message and
  the recipient are not modelled.
\<close>

definition maybe_send_payment_notifications ::
  "settings \<Rightarrow> env \<Rightarrow> payment \<Rightarrow> db \<Rightarrow> db \<times> dispatch list \<times> exn option" where
  "maybe_send_payment_notifications cfg e p d =
     (if \<not> SEND_PAYMENT_NOTIFICATIONS cfg then (d, [], None)
      else if notified_at p \<noteq> None then (d, [], None)
      else
        (case (if sms_configured cfg then send_sms cfg e else (Inr False, [])) of
           (Inl x, l1) \<Rightarrow> (d, l1, Some x)
         | (Inr sms_sent, l1) \<Rightarrow>
             (case (if whatsapp_configured cfg then send_whatsapp cfg e else (Inr False, [])) of
                (Inl x, l2) \<Rightarrow> (d, l1 @ l2, Some x)
              | (Inr whatsapp_sent, l2) \<Rightarrow>
                  if sms_sent \<or> whatsapp_sent
                  then (save_payment [F_notified_at] (p\<lparr>notified_at := Some (now_notified e)\<rparr>) d,
                        l1 @ l2, None)
                  else (d, l1 @ l2, None))))"

subsection \<open>Signature verifier\<close>

definition verify_razorpay_signature ::
  "pylib \<Rightarrow> string \<Rightarrow> string \<Rightarrow> string \<Rightarrow> string \<Rightarrow> exn + bool" where
  "verify_razorpay_signature lib order payid sig key_secret =
     (if \<not> (order \<noteq> [] \<and> payid \<noteq> [] \<and> sig \<noteq> [] \<and> key_secret \<noteq> []) then Inr False
      else compare_digest
             (hmac_sha256_hexdigest lib (utf8 key_secret) (utf8 (order @ ''|'' @ payid))) sig)"

definition phonepe_checksum :: "pylib \<Rightarrow> string \<Rightarrow> string \<Rightarrow> string \<Rightarrow> string \<Rightarrow> string" where
  "phonepe_checksum lib payload_b64 api_path salt_key salt_index =
     sha256_hexdigest lib (utf8 (payload_b64 @ api_path @ salt_key)) @ ''###'' @ salt_index"

text \<open>
  \<^verbatim>\<open>_verify_phonepe_callback\<close>: \<open>response_b64\<close> is whatever the request body held under
  \<^verbatim>\<open>response\<close>; the header is \<open>None\<close> when the request has none.
\<close>

definition verify_phonepe_callback ::
  "pylib \<Rightarrow> scalar \<Rightarrow> string option \<Rightarrow> string \<Rightarrow> string \<Rightarrow> exn + bool" where
  "verify_phonepe_callback lib response_b64 header_value salt_key salt_index =
     (case header_value of
        None \<Rightarrow> Inr False
      | Some h \<Rightarrow>
          if h = [] then Inr False
          else compare_digest
                 (sha256_hexdigest lib (utf8 (py_str response_b64 @ salt_key)) @ ''###'' @ salt_index) h)"

subsection \<open>Payment reconciler\<close>

definition map_phonepe_status :: "scalar \<Rightarrow> scalar \<Rightarrow> PaymentStatus" where
  "map_phonepe_status state response_code =
     (let state_upper = str_upper (py_str state);
          code_upper = str_upper (py_str response_code)
      in if state_upper \<in> {code_points ''COMPLETED'', code_points ''SUCCESS''}
            \<or> code_upper \<in> {code_points ''PAYMENT_SUCCESS'', code_points ''SUCCESS''}
         then Paid
         else if state_upper \<in> {code_points ''FAILED'', code_points ''ERROR''}
            \<or> code_upper \<in> {code_points ''PAYMENT_ERROR'', code_points ''FAILED''}
         then Failed
         else Pending)"

text \<open>
  What the database stores for a value assigned to a \<^verbatim>\<open>CharField\<close>: its \<^verbatim>\<open>str\<close>; the
  column is not nullable, so saving \<^verbatim>\<open>None\<close> raises \<^verbatim>\<open>IntegrityError\<close>.
\<close>

definition char_column :: "scalar \<Rightarrow> exn + string" where
  "char_column v = (case v of PyNone \<Rightarrow> Inl IntegrityError | _ \<Rightarrow> Inr (py_str v))"

text \<open>
  \<^verbatim>\<open>_update_payment_from_phonepe(payment, decoded)\<close>. \<^verbatim>\<open>.get\<close> on a value that is not
  a dict raises \<^verbatim>\<open>AttributeError\<close>; the first \<^verbatim>\<open>save\<close> raises before it writes when a
  character column would be null. The result is the database, the notification
  requests sent and the exception that left the function, if one did; what the
  notifier raises leaves after the payment and the admission have been saved.
\<close>

definition update_payment_from_phonepe ::
  "settings \<Rightarrow> env \<Rightarrow> payment \<Rightarrow> payload \<Rightarrow> db \<Rightarrow> db \<times> dispatch list \<times> exn option" where
  "update_payment_from_phonepe cfg e pay decoded d =
     (case decoded of
        POther v \<Rightarrow> (d, [], Some AttributeError)
      | PDict outer df \<Rightarrow>
          (case df of
             DataOther v \<Rightarrow> (d, [], Some AttributeError)
           | _ \<Rightarrow>
               let transaction_data = (case df of DataDict t \<Rightarrow> t | _ \<Rightarrow> []);
                   state = py_or (dict_get transaction_data ''state'' PyNone)
                                 (dict_get outer ''state'' (PyStr []));
                   response_code = py_or (dict_get transaction_data ''responseCode'' PyNone)
                                         (dict_get outer ''code'' (PyStr []));
                   payid = dict_get transaction_data ''transactionId'' (PyStr []);
                   refid = py_or (dict_get transaction_data ''utr'' (PyStr []))
                                 (dict_get transaction_data ''providerReferenceId'' (PyStr []));
                   st = map_phonepe_status state response_code
               in (case (char_column payid, char_column refid) of
                    (Inr payid', Inr refid') \<Rightarrow>
                      let p1 = pay\<lparr>gateway := Some PhonePe, payment_id := payid',
                                  reference_id := refid', gateway_response := Some decoded,
                                  status := st\<rparr>;
                          p2 = (if st = Paid then p1\<lparr>paid_at := Some (now_paid e)\<rparr> else p1);
                          d1 = save_payment [F_gateway, F_payment_id, F_reference_id,
                                             F_gateway_response, F_status, F_paid_at] p2 d
                      in if st = Paid
                         then maybe_send_payment_notifications cfg e p2
                                (save_admission (admission_id p2) FeePaid (amount p2) d1)
                         else (d1, [], None)
                  | _ \<Rightarrow> (d, [], Some IntegrityError))))"

subsection \<open>Views\<close>

datatype view_name = Home | AdmissionSuccess nat

datatype level = MsgError | MsgWarning | MsgInfo | MsgSuccess

text \<open>
  What a view answers: \<open>HttpResponse body code\<close>, a redirect with the flash message
  queued before it, or an uncaught exception.
\<close>

datatype response =
    HttpResponse string nat
  | Redirect view_name level string
  | Raised exn

text \<open>\<^verbatim>\<open>payment_verify\<close>; the three strings are the POST fields, \<^verbatim>\<open>""\<close> when absent.\<close>

definition payment_verify ::
  "settings \<Rightarrow> pylib \<Rightarrow> env \<Rightarrow> string \<Rightarrow> string \<Rightarrow> string \<Rightarrow> db
     \<Rightarrow> response \<times> db \<times> dispatch list" where
  "payment_verify cfg lib e order payid sig d =
     (case payment_by_order d order of
        None \<Rightarrow> (Redirect Home MsgError ''Payment record not found.'', d, [])
      | Some pay \<Rightarrow>
          (case verify_razorpay_signature lib order payid sig (RAZORPAY_KEY_SECRET cfg) of
             Inl x \<Rightarrow> (Raised x, d, [])
           | Inr False \<Rightarrow>
               (Redirect (AdmissionSuccess (admission_id pay)) MsgError ''Payment verification failed.'',
                save_payment [F_status, F_payment_id, F_signature]
                  (pay\<lparr>status := Failed, payment_id := payid, signature := sig\<rparr>) d,
                [])
           | Inr True \<Rightarrow>
               let p1 = pay\<lparr>status := Paid, payment_id := payid, signature := sig,
                           paid_at := Some (now_paid e)\<rparr>;
                   d1 = save_payment [F_status, F_payment_id, F_signature, F_paid_at] p1 d;
                   d2 = save_admission (admission_id p1) FeePaid (amount p1) d1
               in (case maybe_send_payment_notifications cfg e p1 d2 of
                     (d3, sent, Some x) \<Rightarrow> (Raised x, d3, sent)
                   | (d3, sent, None) \<Rightarrow>
                       (Redirect (AdmissionSuccess (admission_id p1)) MsgSuccess
                          ''Payment successful.'', d3, sent))))"

text \<open>
  The body of a callback request as \<^verbatim>\<open>request.body.decode("utf-8")\<close> and \<^verbatim>\<open>json.loads\<close>
  see it: not UTF-8, not JSON, a JSON document that is not an object, or an object.
\<close>

datatype request_body = BodyBadUtf8 | BodyBadJson | BodyOther | BodyDict pydict

record request =
  body :: request_body
  x_verify :: "string option"

text \<open>
  \<^verbatim>\<open>phonepe_callback\<close> up to the payment lookup: the early answer, or the merchant
  transaction id and the decoded payload.
\<close>

definition callback_gate ::
  "settings \<Rightarrow> pylib \<Rightarrow> request \<Rightarrow> response + (scalar \<times> payload)" where
  "callback_gate cfg lib req =
     (case body req of
        BodyBadUtf8 \<Rightarrow> Inl (Raised UnicodeDecodeError)
      | BodyBadJson \<Rightarrow> Inl (HttpResponse ''Invalid payload'' 400)
      | BodyOther \<Rightarrow> Inl (Raised AttributeError)
      | BodyDict data \<Rightarrow>
          let response_b64 = dict_get data ''response'' PyNone in
          if \<not> truthy response_b64 then Inl (HttpResponse ''Missing response'' 400)
          else if PHONEPE_MERCHANT_ID cfg = [] \<or> PHONEPE_SALT_KEY cfg = [] \<or> PHONEPE_SALT_INDEX cfg = []
          then Inl (HttpResponse ''PhonePe not configured'' 400)
          else
            (case (if PHONEPE_VERIFY_CALLBACK cfg
                   then verify_phonepe_callback lib response_b64 (x_verify req)
                          (PHONEPE_SALT_KEY cfg) (PHONEPE_SALT_INDEX cfg)
                   else Inr True) of
               Inl x \<Rightarrow> Inl (Raised x)
             | Inr False \<Rightarrow> Inl (HttpResponse ''Signature mismatch'' 400)
             | Inr True \<Rightarrow>
                 (case response_b64 of
                    PyStr s \<Rightarrow>
                      (case b64_json_loads lib s of
                         None \<Rightarrow> Inl (HttpResponse ''Invalid response data'' 400)
                       | Some (POther v) \<Rightarrow> Inl (Raised AttributeError)
                       | Some (PDict outer (DataOther v)) \<Rightarrow> Inl (Raised AttributeError)
                       | Some (PDict outer df) \<Rightarrow>
                           let merchant_txn_id =
                                 dict_get (case df of DataDict t \<Rightarrow> t | _ \<Rightarrow> [])
                                   ''merchantTransactionId'' PyNone
                           in if \<not> truthy merchant_txn_id
                              then Inl (HttpResponse ''Missing transaction'' 400)
                              else Inr (merchant_txn_id, PDict outer df))
                  | _ \<Rightarrow> Inl (Raised TypeError))))"

definition phonepe_callback ::
  "settings \<Rightarrow> pylib \<Rightarrow> env \<Rightarrow> request \<Rightarrow> db \<Rightarrow> response \<times> db \<times> dispatch list" where
  "phonepe_callback cfg lib e req d =
     (case callback_gate cfg lib req of
        Inl r \<Rightarrow> (r, d, [])
      | Inr (merchant_txn_id, decoded) \<Rightarrow>
          (case payment_by_order d (py_str merchant_txn_id) of
             None \<Rightarrow> (HttpResponse ''Payment not found'' 404, d, [])
           | Some pay \<Rightarrow>
               (case update_payment_from_phonepe cfg e pay decoded d of
                  (d', sent, Some x) \<Rightarrow> (Raised x, d', sent)
                | (d', sent, None) \<Rightarrow> (HttpResponse ''OK'' 200, d', sent))))"

text \<open>\<^verbatim>\<open>_phonepe_fetch_status\<close>: a \<^verbatim>\<open>RuntimeError\<close> with its text, an uncaught exception, or the decoded body.\<close>

datatype fetched = RuntimeError string | FetchRaised exn | Fetched payload

definition phonepe_fetch_status :: "settings \<Rightarrow> pylib \<Rightarrow> env \<Rightarrow> string \<Rightarrow> fetched" where
  "phonepe_fetch_status cfg lib e merchant_transaction_id =
     (if PHONEPE_MERCHANT_ID cfg = [] \<or> PHONEPE_SALT_KEY cfg = []
         \<or> PHONEPE_SALT_INDEX cfg = [] \<or> PHONEPE_BASE_URL cfg = []
      then RuntimeError ''PhonePe settings are missing in settings.py.''
      else
        let api_path = ''/pg/v1/status/'' @ PHONEPE_MERCHANT_ID cfg @ ''/'' @ merchant_transaction_id;
            checksum = phonepe_checksum lib [] api_path (PHONEPE_SALT_KEY cfg) (PHONEPE_SALT_INDEX cfg)
        in case status_fetch e (PHONEPE_BASE_URL cfg @ api_path) checksum of
             FetchHTTPError detail \<Rightarrow> RuntimeError (''PhonePe status failed: '' @ detail)
           | FetchURLError detail \<Rightarrow> RuntimeError (''PhonePe connection failed: '' @ detail)
           | FetchEscapes x \<Rightarrow> FetchRaised x
           | FetchNotJson \<Rightarrow> FetchRaised ValueError
           | FetchBody p \<Rightarrow> Fetched p)"

text \<open>
  \<^verbatim>\<open>phonepe_status_check(request, admission_id)\<close>. The route takes any string of digits
  as \<^verbatim>\<open>admission_id\<close> and the view hands it to the lookup as it is; the lookup raises
  where the number is beyond what the database accepts.
\<close>

definition phonepe_status_check ::
  "settings \<Rightarrow> pylib \<Rightarrow> env \<Rightarrow> nat \<Rightarrow> db \<Rightarrow> response \<times> db \<times> dispatch list" where
  "phonepe_status_check cfg lib e adm d =
     (if max_db_integer < adm then (Raised OverflowError, d, [])
      else
        (case payment_by_admission d adm of
           None \<Rightarrow>
             (Redirect (AdmissionSuccess adm) MsgWarning
                ''PhonePe payment not found for this admission.'', d, [])
         | Some pay \<Rightarrow>
             if order_id pay = []
             then (Redirect (AdmissionSuccess adm) MsgWarning
                     ''PhonePe payment not found for this admission.'', d, [])
             else
               (case phonepe_fetch_status cfg lib e (order_id pay) of
                  RuntimeError msg \<Rightarrow> (Redirect (AdmissionSuccess adm) MsgError msg, d, [])
                | FetchRaised x \<Rightarrow> (Raised x, d, [])
                | Fetched decoded \<Rightarrow>
                    (case update_payment_from_phonepe cfg e pay decoded d of
                       (d', sent, Some x) \<Rightarrow> (Raised x, d', sent)
                     | (d', sent, None) \<Rightarrow>
                         (Redirect (AdmissionSuccess adm) MsgInfo ''PhonePe status updated.'',
                          d', sent)))))"

text \<open>
  What \<^verbatim>\<open>admission_success\<close> writes (its page is not modelled): a paid payment without
  \<^verbatim>\<open>paid_at\<close> gets one. \<^verbatim>\<open>Admission.objects.get\<close> raises when the admission is missing,
  and when the number is beyond what the database accepts.
\<close>

definition admission_success :: "env \<Rightarrow> nat \<Rightarrow> db \<Rightarrow> exn + db" where
  "admission_success e adm d =
     (if max_db_integer < adm then Inl OverflowError
      else
        (case admission_row d adm of
           None \<Rightarrow> Inl DoesNotExist
         | Some a \<Rightarrow>
             (case payment_by_admission d (admission_pk a) of
                None \<Rightarrow> Inr d
              | Some pay \<Rightarrow>
                  if status pay = Paid \<and> paid_at pay = None
                  then Inr (save_payment [F_paid_at] (pay\<lparr>paid_at := Some (now_paid e)\<rparr>) d)
                  else Inr d)))"

text \<open>The three reconciliation entry points as events, and a sequence of them.\<close>

datatype event =
    RedirectVerify string string string
  | Callback request
  | Poll nat

fun reconcile :: "settings \<Rightarrow> pylib \<Rightarrow> env \<Rightarrow> event \<Rightarrow> db \<Rightarrow> response \<times> db \<times> dispatch list" where
  "reconcile cfg lib e (RedirectVerify order payid sig) d = payment_verify cfg lib e order payid sig d"
| "reconcile cfg lib e (Callback req) d = phonepe_callback cfg lib e req d"
| "reconcile cfg lib e (Poll adm) d = phonepe_status_check cfg lib e adm d"

fun run :: "settings \<Rightarrow> pylib \<Rightarrow> (env \<times> event) list \<Rightarrow> db \<Rightarrow> db" where
  "run cfg lib [] d = d"
| "run cfg lib ((e, ev) # rest) d = run cfg lib rest (fst (snd (reconcile cfg lib e ev d)))"

subsection \<open>Notions the properties are stated with\<close>

text \<open>Upper-casing of the letters a to z only.\<close>

definition ascii_upper_char :: "char \<Rightarrow> char" where
  "ascii_upper_char c =
     (if 97 \<le> (of_char c :: nat) \<and> (of_char c :: nat) \<le> 122
      then char_of ((of_char c :: nat) - 32) else c)"

definition ascii_upper :: "string \<Rightarrow> string" where
  "ascii_upper s = map ascii_upper_char s"

text \<open>
  A request the provider accepted (a response with a status from 200 to 299), and the
  exception a request ends in when it is not a \<^verbatim>\<open>URLError\<close>.
\<close>

fun accepted :: "transport \<Rightarrow> bool" where
  "accepted (Responded st) = (200 \<le> st \<and> st < 300)"
| "accepted URLError = False"
| "accepted (Escapes x) = False"

fun raised_by :: "transport \<Rightarrow> exn option" where
  "raised_by (Responded st) = None"
| "raised_by URLError = None"
| "raised_by (Escapes x) = Some x"

text \<open>Some configured channel reports a successful dispatch.\<close>

definition channel_success :: "settings \<Rightarrow> env \<Rightarrow> bool" where
  "channel_success cfg e =
     ((sms_configured cfg \<and> accepted (sms_transport e))
      \<or> (whatsapp_configured cfg \<and> accepted (whatsapp_transport e)))"

text \<open>
  The exception that leaves the notification requests of a configuration in the world
  \<open>e\<close>: that of the SMS request, else that of the WhatsApp request, of the configured
  channels.
\<close>

definition escaping :: "settings \<Rightarrow> env \<Rightarrow> exn option" where
  "escaping cfg e =
     (if sms_configured cfg \<and> raised_by (sms_transport e) \<noteq> None then raised_by (sms_transport e)
      else if whatsapp_configured cfg then raised_by (whatsapp_transport e)
      else None)"

text \<open>The payments table with the columns \<^verbatim>\<open>paid_at\<close> and \<^verbatim>\<open>notified_at\<close> blanked.\<close>

definition without_stamps :: "payment list \<Rightarrow> payment list" where
  "without_stamps rows = map (\<lambda>r. r\<lparr>paid_at := None, notified_at := None\<rparr>) rows"

text \<open>What \<open>save_payment fs p\<close> makes of a stored row.\<close>

definition written :: "payment_field list \<Rightarrow> payment \<Rightarrow> payment \<Rightarrow> payment" where
  "written fs p row =
     (if payment_pk row = payment_pk p then fold (copy_payment_field p) fs row else row)"

text \<open>
  The notification requests a configuration sends in the world \<open>e\<close>, with their
  outcomes: one per configured channel, SMS first, up to the first that raises.
\<close>

definition attempts :: "settings \<Rightarrow> env \<Rightarrow> dispatch list" where
  "attempts cfg e =
     (if sms_configured cfg then [(SMS, accepted (sms_transport e))] else [])
     @ (if sms_configured cfg \<and> raised_by (sms_transport e) \<noteq> None then []
        else if whatsapp_configured cfg then [(WhatsApp, accepted (whatsapp_transport e))]
        else [])"

text \<open>
  What a decoded payload resolves to, as \<open>update_payment_from_phonepe\<close> computes it
  before it touches the payment: the exception it raises, or the payment id, the
  reference id and the canonical status it is about to store.
\<close>

definition resolved :: "payload \<Rightarrow> exn + (string \<times> string \<times> PaymentStatus)" where
  "resolved decoded =
     (case decoded of
        POther v \<Rightarrow> Inl AttributeError
      | PDict outer df \<Rightarrow>
          (case df of
             DataOther v \<Rightarrow> Inl AttributeError
           | _ \<Rightarrow>
               let transaction_data = (case df of DataDict t \<Rightarrow> t | _ \<Rightarrow> []);
                   state = py_or (dict_get transaction_data ''state'' PyNone)
                                 (dict_get outer ''state'' (PyStr []));
                   response_code = py_or (dict_get transaction_data ''responseCode'' PyNone)
                                         (dict_get outer ''code'' (PyStr []));
                   payid = dict_get transaction_data ''transactionId'' (PyStr []);
                   refid = py_or (dict_get transaction_data ''utr'' (PyStr []))
                                 (dict_get transaction_data ''providerReferenceId'' (PyStr []))
               in (case (char_column payid, char_column refid) of
                    (Inr payid', Inr refid') \<Rightarrow>
                       Inr (payid', refid', map_phonepe_status state response_code)
                  | _ \<Rightarrow> Inl IntegrityError)))"

text \<open>What \<open>update_payment_from_phonepe\<close> does once the payload has resolved to \<open>r\<close>.\<close>

definition store ::
  "settings \<Rightarrow> env \<Rightarrow> payment \<Rightarrow> payload \<Rightarrow> string \<times> string \<times> PaymentStatus \<Rightarrow> db
     \<Rightarrow> db \<times> dispatch list \<times> exn option" where
  "store cfg e pay decoded r d =
     (case r of (payid, refid, st) \<Rightarrow>
        let p1 = pay\<lparr>gateway := Some PhonePe, payment_id := payid,
                    reference_id := refid, gateway_response := Some decoded,
                    status := st\<rparr>;
            p2 = (if st = Paid then p1\<lparr>paid_at := Some (now_paid e)\<rparr> else p1);
            d1 = save_payment [F_gateway, F_payment_id, F_reference_id,
                               F_gateway_response, F_status, F_paid_at] p2 d
        in if st = Paid
           then maybe_send_payment_notifications cfg e p2
                  (save_admission (admission_id p2) FeePaid (amount p2) d1)
           else (d1, [], None))"

text \<open>
  The effect of one resolved outcome on a stored payment row and on a stored admission
  row, \<open>pay\<close> being the payment object the view holds.
\<close>

definition row_effect ::
  "settings \<Rightarrow> env \<Rightarrow> payment \<Rightarrow> payload \<Rightarrow> string \<times> string \<times> PaymentStatus
     \<Rightarrow> payment \<Rightarrow> payment" where
  "row_effect cfg e pay decoded r row =
     (case r of (payid, refid, st) \<Rightarrow>
        if payment_pk row = payment_pk pay
        then row\<lparr>gateway := Some PhonePe, payment_id := payid, reference_id := refid,
                 gateway_response := Some decoded, status := st,
                 paid_at := (if st = Paid then Some (now_paid e) else paid_at pay),
                 notified_at :=
                   (if st = Paid \<and> SEND_PAYMENT_NOTIFICATIONS cfg \<and> notified_at pay = None
                       \<and> escaping cfg e = None \<and> channel_success cfg e
                    then Some (now_notified e) else notified_at row)\<rparr>
        else row)"

definition admission_effect :: "payment \<Rightarrow> PaymentStatus \<Rightarrow> admission \<Rightarrow> admission" where
  "admission_effect pay st row =
     (if st = Paid \<and> admission_pk row = admission_id pay
      then row\<lparr>fee_status := FeePaid, fee_paid := amount pay\<rparr> else row)"

text \<open>
  Keys as the database constrains them: primary keys are unique, and so is the
  admission of a payment (\<^verbatim>\<open>OneToOneField\<close>).
\<close>

definition well_keyed :: "db \<Rightarrow> bool" where
  "well_keyed d =
     (distinct (map payment_pk (payments d)) \<and> distinct (map admission_id (payments d)))"

text \<open>Every paid payment's admission has fee status Paid and the payment's amount as fee paid.\<close>

definition paid_in_step :: "db \<Rightarrow> bool" where
  "paid_in_step d =
     (\<forall>p \<in> set (payments d). \<forall>a \<in> set (admissions d).
        status p = Paid \<and> admission_pk a = admission_id p
          \<longrightarrow> fee_status a = FeePaid \<and> fee_paid a = amount p)"

subsection \<open>A concrete installation\<close>

text \<open>
  Concrete inputs for the examples below. \<open>demo_lib\<close> stands in for the standard
  library: its digests write the input bytes in hexadecimal (so different inputs have
  different digests, as one expects of SHA-256), and its decoder knows the two
  envelopes of the specification's example, the Base64 text of
  \<^verbatim>\<open>{"data":{"merchantTransactionId":"ADM42171700000001","state":S,"transactionId":"T1","utr":"U1"}}\<close>
  for \<^verbatim>\<open>S\<close> being \<^verbatim>\<open>"COMPLETED"\<close> and \<^verbatim>\<open>"FAILED"\<close>.
\<close>

definition hex_of_bytes :: "bytes \<Rightarrow> string" where
  "hex_of_bytes raw =
     concat (map (\<lambda>b. [''0123456789abcdef'' ! (unat b div 16),
                         ''0123456789abcdef'' ! (unat b mod 16)]) raw)"

definition paid_envelope :: string where
  "paid_envelope = ''eyJkYXRhIjp7Im1lcmNoYW50VHJhbnNhY3Rpb25JZCI6IkFETTQyMTcxNzAwMDAwMDAxIiwic3RhdGUiOiJDT01QTEVURUQiLCJ0cmFuc2FjdGlvbklkIjoiVDEiLCJ1dHIiOiJVMSJ9fQ==''"

definition failed_envelope :: string where
  "failed_envelope = ''eyJkYXRhIjp7Im1lcmNoYW50VHJhbnNhY3Rpb25JZCI6IkFETTQyMTcxNzAwMDAwMDAxIiwic3RhdGUiOiJGQUlMRUQiLCJ0cmFuc2FjdGlvbklkIjoiVDEiLCJ1dHIiOiJVMSJ9fQ==''"

definition paid_payload :: payload where
  "paid_payload =
     PDict [] (DataDict [(''merchantTransactionId'', PyStr ''ADM42171700000001''),
                         (''state'', PyStr ''COMPLETED''),
                         (''transactionId'', PyStr ''T1''), (''utr'', PyStr ''U1'')])"

definition failed_payload :: payload where
  "failed_payload =
     PDict [] (DataDict [(''merchantTransactionId'', PyStr ''ADM42171700000001''),
                         (''state'', PyStr ''FAILED''),
                         (''transactionId'', PyStr ''T1''), (''utr'', PyStr ''U1'')])"

definition demo_lib :: pylib where
  "demo_lib =
     \<lparr>sha256_hexdigest = hex_of_bytes,
      hmac_sha256_hexdigest = (\<lambda>k m. hex_of_bytes (k @ m)),
      b64_json_loads = (\<lambda>s. if s = paid_envelope then Some paid_payload
                            else if s = failed_envelope then Some failed_payload
                            else None)\<rparr>"

definition demo_cfg :: settings where
  "demo_cfg =
     \<lparr>RAZORPAY_KEY_SECRET = ''secret'',
      PHONEPE_MERCHANT_ID = ''M1'', PHONEPE_SALT_KEY = ''salt'', PHONEPE_SALT_INDEX = ''1'',
      PHONEPE_BASE_URL = ''https://gateway.example'',
      PHONEPE_VERIFY_CALLBACK = True, SEND_PAYMENT_NOTIFICATIONS = True,
      SMS_PROVIDER = ''Twilio'', TWILIO_ACCOUNT_SID = ''sid'', TWILIO_AUTH_TOKEN = ''token'',
      TWILIO_FROM_NUMBER = ''+15550100'',
      WHATSAPP_PROVIDER = [], WHATSAPP_PHONE_NUMBER_ID = [], WHATSAPP_ACCESS_TOKEN = []\<rparr>"

text \<open>
  The world at clock reading \<open>t\<close>, with the given answer to an SMS request; a status
  request is answered with the failed payload.
\<close>

definition demo_env :: "nat \<Rightarrow> transport \<Rightarrow> env" where
  "demo_env t sms =
     \<lparr>now_paid = t, now_notified = t, sms_transport = sms, whatsapp_transport = URLError,
      status_fetch = (\<lambda>url hdr. FetchBody failed_payload)\<rparr>"

definition demo_payment :: payment where
  "demo_payment =
     \<lparr>payment_pk = 1, admission_id = 42, amount = 1500, gateway = Some PhonePe,
      status = Pending, pay_method = Some Online, reference_id = [],
      order_id = ''ADM42171700000001'', payment_id = [], signature = [],
      gateway_response = None, notified_at = None, created_at = 10, paid_at = None\<rparr>"

definition demo_admission :: admission where
  "demo_admission = \<lparr>admission_pk = 42, fee_amount = 1500, fee_paid = 0, fee_status = FeePending\<rparr>"

definition demo_db :: db where
  "demo_db = \<lparr>payments = [demo_payment], admissions = [demo_admission]\<rparr>"

text \<open>The same installation after the payment has been confirmed at clock reading 50.\<close>

definition paid_db :: db where
  "paid_db =
     \<lparr>payments = [demo_payment\<lparr>status := Paid, paid_at := Some 50, notified_at := Some 50\<rparr>],
      admissions = [demo_admission\<lparr>fee_paid := 1500, fee_status := FeePaid\<rparr>]\<rparr>"

text \<open>A callback carrying the envelope with the integrity header the view expects.\<close>

definition callback_request :: "string \<Rightarrow> request" where
  "callback_request envelope =
     \<lparr>body = BodyDict [(''response'', PyStr envelope)],
      x_verify = Some (phonepe_checksum demo_lib envelope []
                         (PHONEPE_SALT_KEY demo_cfg) (PHONEPE_SALT_INDEX demo_cfg))\<rparr>"

section \<open>Lemmas\<close>

subsection \<open>Lookups after a save\<close>

lemma find_map_same_key:
  assumes "\<And>x. P (f x) = P x"
  shows "find P (map f xs) = map_option f (find P xs)"
  using assms by (induction xs) simp_all

lemma copy_payment_field_keys [simp]:
  "payment_pk (copy_payment_field src f row) = payment_pk row"
  "order_id (copy_payment_field src f row) = order_id row"
  "admission_id (copy_payment_field src f row) = admission_id row"
  "amount (copy_payment_field src f row) = amount row"
  by (cases f; simp)+

lemma fold_copy_keys [simp]:
  "payment_pk (fold (copy_payment_field src) fs row) = payment_pk row"
  "order_id (fold (copy_payment_field src) fs row) = order_id row"
  "admission_id (fold (copy_payment_field src) fs row) = admission_id row"
  "amount (fold (copy_payment_field src) fs row) = amount row"
  by (induction fs arbitrary: row; simp)+

lemma written_keys [simp]:
  "payment_pk (written fs p row) = payment_pk row"
  "order_id (written fs p row) = order_id row"
  "admission_id (written fs p row) = admission_id row"
  "amount (written fs p row) = amount row"
  by (simp_all add: written_def)

lemma payments_save_payment: "payments (save_payment fs p d) = map (written fs p) (payments d)"
  by (simp add: save_payment_def written_def)

lemma admissions_save_payment [simp]: "admissions (save_payment fs p d) = admissions d"
  by (simp add: save_payment_def)

lemma payments_save_admission [simp]: "payments (save_admission k st n d) = payments d"
  by (simp add: save_admission_def)

lemma payment_by_order_save_payment:
  "payment_by_order (save_payment fs p d) k = map_option (written fs p) (payment_by_order d k)"
  by (simp add: payment_by_order_def payments_save_payment find_map_same_key)

lemma payment_by_admission_save_payment:
  "payment_by_admission (save_payment fs p d) k = map_option (written fs p) (payment_by_admission d k)"
  by (simp add: payment_by_admission_def payments_save_payment find_map_same_key)

lemma payment_row_save_payment:
  "payment_row (save_payment fs p d) k = map_option (written fs p) (payment_row d k)"
  by (simp add: payment_row_def payments_save_payment find_map_same_key)

lemma lookups_save_admission [simp]:
  "payment_by_order (save_admission k st n d) = payment_by_order d"
  "payment_by_admission (save_admission k st n d) = payment_by_admission d"
  "payment_row (save_admission k st n d) = payment_row d"
  by (simp_all add: payment_by_order_def payment_by_admission_def payment_row_def fun_eq_iff)


subsection \<open>Notifier\<close>

lemma delivered_accepted [simp]: "(delivered t = Inr True) = accepted t"
  by (cases t) simp_all

lemma delivered_raised_by:
  "delivered t = (case raised_by t of Some x \<Rightarrow> Inl x | None \<Rightarrow> Inr (accepted t))"
  by (cases t) simp_all

lemma send_sms_configured:
  "sms_configured cfg
   \<Longrightarrow> send_sms cfg e = (delivered (sms_transport e), [(SMS, accepted (sms_transport e))])"
  by (auto simp: sms_configured_def send_sms_def send_sms_twilio_def split: if_splits)

lemma send_whatsapp_configured:
  "whatsapp_configured cfg
   \<Longrightarrow> send_whatsapp cfg e
       = (delivered (whatsapp_transport e), [(WhatsApp, accepted (whatsapp_transport e))])"
  by (auto simp: whatsapp_configured_def send_whatsapp_def send_whatsapp_cloud_def split: if_splits)

lemma notify_off:
  "\<not> SEND_PAYMENT_NOTIFICATIONS cfg \<or> notified_at p \<noteq> None
   \<Longrightarrow> maybe_send_payment_notifications cfg e p d = (d, [], None)"
  by (auto simp: maybe_send_payment_notifications_def)

lemma notify_on:
  assumes "SEND_PAYMENT_NOTIFICATIONS cfg" "notified_at p = None" "escaping cfg e = None"
  shows "maybe_send_payment_notifications cfg e p d =
     (if channel_success cfg e
      then save_payment [F_notified_at] (p\<lparr>notified_at := Some (now_notified e)\<rparr>) d else d,
      attempts cfg e, None)"
  using assms
  by (cases "sms_transport e"; cases "whatsapp_transport e")
    (simp_all add: maybe_send_payment_notifications_def channel_success_def attempts_def
      escaping_def send_sms_configured send_whatsapp_configured split: if_splits)

lemma notify_escapes:
  assumes "SEND_PAYMENT_NOTIFICATIONS cfg" "notified_at p = None" "escaping cfg e = Some x"
  shows "maybe_send_payment_notifications cfg e p d = (d, attempts cfg e, Some x)"
  using assms
  by (cases "sms_transport e"; cases "whatsapp_transport e")
    (simp_all add: maybe_send_payment_notifications_def attempts_def
      escaping_def send_sms_configured send_whatsapp_configured split: if_splits)

lemma notify_database:
  "fst (maybe_send_payment_notifications cfg e p d)
   = (if SEND_PAYMENT_NOTIFICATIONS cfg \<and> notified_at p = None \<and> escaping cfg e = None
         \<and> channel_success cfg e
      then save_payment [F_notified_at] (p\<lparr>notified_at := Some (now_notified e)\<rparr>) d else d)"
proof (cases "SEND_PAYMENT_NOTIFICATIONS cfg \<and> notified_at p = None")
  case False
  then show ?thesis by (auto simp: notify_off)
next
  case True
  then show ?thesis
    by (cases "escaping cfg e") (auto simp: notify_on notify_escapes)
qed

lemma notify_sent:
  "fst (snd (maybe_send_payment_notifications cfg e p d))
   = (if SEND_PAYMENT_NOTIFICATIONS cfg \<and> notified_at p = None then attempts cfg e else [])"
proof (cases "SEND_PAYMENT_NOTIFICATIONS cfg \<and> notified_at p = None")
  case False
  then show ?thesis by (auto simp: notify_off)
next
  case True
  then show ?thesis
    by (cases "escaping cfg e") (auto simp: notify_on notify_escapes)
qed

lemma notify_raised:
  "snd (snd (maybe_send_payment_notifications cfg e p d))
   = (if SEND_PAYMENT_NOTIFICATIONS cfg \<and> notified_at p = None then escaping cfg e else None)"
proof (cases "SEND_PAYMENT_NOTIFICATIONS cfg \<and> notified_at p = None")
  case False
  then show ?thesis by (auto simp: notify_off)
next
  case True
  then show ?thesis
    by (cases "escaping cfg e") (auto simp: notify_on notify_escapes)
qed

lemma attempts_success:
  "escaping cfg e = None \<Longrightarrow> (\<exists>x \<in> set (attempts cfg e). snd x) = channel_success cfg e"
  by (auto simp: attempts_def channel_success_def escaping_def split: if_splits)

subsection \<open>Strings\<close>

lemma is_ascii_append [simp]: "is_ascii (a @ b) \<longleftrightarrow> is_ascii a \<and> is_ascii b"
  by (simp add: is_ascii_def)

lemma code_points_eq_iff [simp]: "code_points a = code_points b \<longleftrightarrow> a = b"
  by (simp add: code_points_def inj_map_eq_map inj_on_def)

lemma upper_cp_ascii:
  "(of_char c :: nat) < 128 \<Longrightarrow> upper_cp c = [of_char (ascii_upper_char c)]"
  by (auto simp: upper_cp_def ascii_upper_char_def Let_def)

lemma str_upper_ascii: "is_ascii s \<Longrightarrow> str_upper s = code_points (ascii_upper s)"
  by (induction s)
    (simp_all add: is_ascii_def str_upper_def code_points_def ascii_upper_def upper_cp_ascii)

lemma upper_cp_ascii_upper_char: "upper_cp (ascii_upper_char c) = upper_cp c"
  by (auto simp: upper_cp_def ascii_upper_char_def Let_def)

lemma str_upper_ascii_upper: "str_upper (ascii_upper s) = str_upper s"
  by (induction s) (simp_all add: str_upper_def ascii_upper_def upper_cp_ascii_upper_char)

subsection \<open>The effect of a resolved outcome\<close>

lemma update_via_resolved:
  "update_payment_from_phonepe cfg e pay decoded d
   = (case resolved decoded of
        Inl x \<Rightarrow> (d, [], Some x)
      | Inr r \<Rightarrow> store cfg e pay decoded r d)"
proof (cases decoded)
  case (POther v)
  then show ?thesis by (simp add: update_payment_from_phonepe_def resolved_def)
next
  case (PDict outer df)
  show ?thesis
  proof (cases df)
    case (DataOther v)
    then show ?thesis using PDict by (simp add: update_payment_from_phonepe_def resolved_def)
  next
    case NoData
    then show ?thesis using PDict
      by (simp add: update_payment_from_phonepe_def resolved_def store_def Let_def split: sum.split)
  next
    case (DataDict t)
    then show ?thesis using PDict
      by (simp add: update_payment_from_phonepe_def resolved_def store_def Let_def split: sum.split)
  qed
qed

lemma admissions_save_admission:
  "admissions (save_admission k st n d)
   = map (\<lambda>row. if admission_pk row = k then row\<lparr>fee_status := st, fee_paid := n\<rparr> else row)
       (admissions d)"
  by (simp add: save_admission_def)

lemma written_reconcile_fields:
  "written [F_gateway, F_payment_id, F_reference_id, F_gateway_response, F_status, F_paid_at] p row
   = (if payment_pk row = payment_pk p
      then row\<lparr>gateway := gateway p, payment_id := payment_id p, reference_id := reference_id p,
               gateway_response := gateway_response p, status := status p, paid_at := paid_at p\<rparr>
      else row)"
  by (simp add: written_def)

lemma written_notified:
  "written [F_notified_at] p row
   = (if payment_pk row = payment_pk p then row\<lparr>notified_at := notified_at p\<rparr> else row)"
  by (simp add: written_def)

lemma store_not_paid:
  assumes "st \<noteq> Paid"
  shows "payments (fst (store cfg e pay decoded (payid, refid, st) d))
           = map (row_effect cfg e pay decoded (payid, refid, st)) (payments d)"
    and "admissions (fst (store cfg e pay decoded (payid, refid, st) d)) = admissions d"
    and "snd (store cfg e pay decoded (payid, refid, st) d) = ([], None)"
  using assms
  by (simp_all add: store_def Let_def payments_save_payment written_reconcile_fields row_effect_def)

lemma store_paid:
  shows "payments (fst (store cfg e pay decoded (payid, refid, Paid) d))
           = map (row_effect cfg e pay decoded (payid, refid, Paid)) (payments d)"
    and "admissions (fst (store cfg e pay decoded (payid, refid, Paid) d))
           = map (admission_effect pay Paid) (admissions d)"
    and "fst (snd (store cfg e pay decoded (payid, refid, Paid) d))
           = (if SEND_PAYMENT_NOTIFICATIONS cfg \<and> notified_at pay = None
              then attempts cfg e else [])"
    and "snd (snd (store cfg e pay decoded (payid, refid, Paid) d))
           = (if SEND_PAYMENT_NOTIFICATIONS cfg \<and> notified_at pay = None
              then escaping cfg e else None)"
proof -
  let ?p2 = "pay\<lparr>gateway := Some PhonePe, payment_id := payid, reference_id := refid,
                 gateway_response := Some decoded, status := Paid, paid_at := Some (now_paid e)\<rparr>"
  let ?d2 = "save_admission (admission_id pay) FeePaid (amount pay)
               (save_payment [F_gateway, F_payment_id, F_reference_id, F_gateway_response,
                              F_status, F_paid_at] ?p2 d)"
  let ?stamp = "SEND_PAYMENT_NOTIFICATIONS cfg \<and> notified_at pay = None \<and> escaping cfg e = None
                  \<and> channel_success cfg e"
  have st: "store cfg e pay decoded (payid, refid, Paid) d
              = maybe_send_payment_notifications cfg e ?p2 ?d2"
    by (simp add: store_def Let_def)
  have db: "fst (store cfg e pay decoded (payid, refid, Paid) d)
      = (if ?stamp
         then save_payment [F_notified_at] (?p2\<lparr>notified_at := Some (now_notified e)\<rparr>) ?d2
         else ?d2)"
    by (simp add: st notify_database)
  have row1: "\<And>row. \<not> ?stamp \<Longrightarrow>
         written [F_gateway, F_payment_id, F_reference_id, F_gateway_response,
                  F_status, F_paid_at] ?p2 row
         = row_effect cfg e pay decoded (payid, refid, Paid) row"
    by (auto simp: written_reconcile_fields row_effect_def)
  have row2: "\<And>row. ?stamp \<Longrightarrow>
         written [F_notified_at] (?p2\<lparr>notified_at := Some (now_notified e)\<rparr>)
           (written [F_gateway, F_payment_id, F_reference_id, F_gateway_response,
                     F_status, F_paid_at] ?p2 row)
         = row_effect cfg e pay decoded (payid, refid, Paid) row"
    by (simp add: written_reconcile_fields written_notified row_effect_def)
  show "payments (fst (store cfg e pay decoded (payid, refid, Paid) d))
           = map (row_effect cfg e pay decoded (payid, refid, Paid)) (payments d)"
  proof (cases ?stamp)
    case True
    have "fst (store cfg e pay decoded (payid, refid, Paid) d)
        = save_payment [F_notified_at] (?p2\<lparr>notified_at := Some (now_notified e)\<rparr>) ?d2"
      by (simp only: db if_P [OF True])
    then show ?thesis
      by (simp add: payments_save_payment row2 [OF True] o_def)
  next
    case False
    have "fst (store cfg e pay decoded (payid, refid, Paid) d) = ?d2"
      by (simp only: db if_not_P [OF False])
    then show ?thesis
      by (simp add: payments_save_payment row1 [OF False])
  qed
  show "admissions (fst (store cfg e pay decoded (payid, refid, Paid) d))
           = map (admission_effect pay Paid) (admissions d)"
    by (simp add: db admissions_save_admission admission_effect_def)
  show "fst (snd (store cfg e pay decoded (payid, refid, Paid) d))
           = (if SEND_PAYMENT_NOTIFICATIONS cfg \<and> notified_at pay = None
              then attempts cfg e else [])"
    by (simp add: st notify_sent)
  show "snd (snd (store cfg e pay decoded (payid, refid, Paid) d))
           = (if SEND_PAYMENT_NOTIFICATIONS cfg \<and> notified_at pay = None
              then escaping cfg e else None)"
    by (simp add: st notify_raised)
qed

lemma store_effect:
  "payments (fst (store cfg e pay decoded r d)) = map (row_effect cfg e pay decoded r) (payments d)"
  "admissions (fst (store cfg e pay decoded r d))
     = map (admission_effect pay (snd (snd r))) (admissions d)"
  "fst (snd (store cfg e pay decoded r d))
     = (if snd (snd r) = Paid \<and> SEND_PAYMENT_NOTIFICATIONS cfg \<and> notified_at pay = None
        then attempts cfg e else [])"
  "snd (snd (store cfg e pay decoded r d))
     = (if snd (snd r) = Paid \<and> SEND_PAYMENT_NOTIFICATIONS cfg \<and> notified_at pay = None
        then escaping cfg e else None)"
proof -
  obtain payid refid st where r: "r = (payid, refid, st)"
    by (cases r) auto
  have idm: "map (admission_effect pay st) (admissions d) = admissions d" if "st \<noteq> Paid"
    using that by (intro map_idI) (simp add: admission_effect_def)
  show "payments (fst (store cfg e pay decoded r d)) = map (row_effect cfg e pay decoded r) (payments d)"
    using store_not_paid(1) [of st cfg e pay decoded payid refid d]
      store_paid(1) [of cfg e pay decoded payid refid d]
    unfolding r by (cases "st = Paid") auto
  show "admissions (fst (store cfg e pay decoded r d))
     = map (admission_effect pay (snd (snd r))) (admissions d)"
    using store_not_paid(2) [of st cfg e pay decoded payid refid d] idm
      store_paid(2) [of cfg e pay decoded payid refid d]
    unfolding r by (cases "st = Paid") auto
  show "fst (snd (store cfg e pay decoded r d))
     = (if snd (snd r) = Paid \<and> SEND_PAYMENT_NOTIFICATIONS cfg \<and> notified_at pay = None
        then attempts cfg e else [])"
    using store_not_paid(3) [of st cfg e pay decoded payid refid d]
      store_paid(3) [of cfg e pay decoded payid refid d]
    unfolding r by (cases "st = Paid") auto
  show "snd (snd (store cfg e pay decoded r d))
     = (if snd (snd r) = Paid \<and> SEND_PAYMENT_NOTIFICATIONS cfg \<and> notified_at pay = None
        then escaping cfg e else None)"
    using store_not_paid(3) [of st cfg e pay decoded payid refid d]
      store_paid(4) [of cfg e pay decoded payid refid d]
    unfolding r by (cases "st = Paid") auto
qed

lemma row_effect_keys [simp]:
  "payment_pk (row_effect cfg e pay decoded r row) = payment_pk row"
  "order_id (row_effect cfg e pay decoded r row) = order_id row"
  "admission_id (row_effect cfg e pay decoded r row) = admission_id row"
  "amount (row_effect cfg e pay decoded r row) = amount row"
  by (simp_all add: row_effect_def split: prod.split)

lemma payment_by_order_store:
  "payment_by_order (fst (store cfg e pay decoded r d)) k
   = map_option (row_effect cfg e pay decoded r) (payment_by_order d k)"
  by (simp add: payment_by_order_def store_effect(1) find_map_same_key)

lemma payment_by_admission_store:
  "payment_by_admission (fst (store cfg e pay decoded r d)) k
   = map_option (row_effect cfg e pay decoded r) (payment_by_admission d k)"
  by (simp add: payment_by_admission_def store_effect(1) find_map_same_key)

lemma callback_found:
  assumes "callback_gate cfg lib req = Inr (k, dec)"
    and "payment_by_order d (py_str k) = Some pay" and "resolved dec = Inr r"
  shows "phonepe_callback cfg lib e req d
         = (case snd (snd (store cfg e pay dec r d)) of
              None \<Rightarrow> HttpResponse ''OK'' 200
            | Some x \<Rightarrow> Raised x,
            fst (store cfg e pay dec r d), fst (snd (store cfg e pay dec r d)))"
  using assms
  by (simp add: phonepe_callback_def update_via_resolved split: prod.split option.split)

lemma callback_ok:
  assumes "callback_gate cfg lib req = Inr (k, dec)"
    and "phonepe_callback cfg lib e req d = (HttpResponse ''OK'' 200, d', sent)"
  shows "\<exists>pay r. payment_by_order d (py_str k) = Some pay \<and> resolved dec = Inr r
           \<and> d' = fst (store cfg e pay dec r d) \<and> sent = fst (snd (store cfg e pay dec r d))
           \<and> snd (snd (store cfg e pay dec r d)) = None"
  using assms
  by (auto simp: phonepe_callback_def update_via_resolved
      split: option.splits sum.splits prod.splits)

lemma replay_row:
  assumes "p1 = row_effect cfg e1 pay dec (payid, refid, Paid) pay"
  shows "(row_effect cfg e2 p1 dec (payid, refid, Paid)
            (row_effect cfg e1 pay dec (payid, refid, Paid) row))
           \<lparr>paid_at := None, notified_at := None\<rparr>
         = (row_effect cfg e1 pay dec (payid, refid, Paid) row)
             \<lparr>paid_at := None, notified_at := None\<rparr>"
  using assms by (simp add: row_effect_def)

lemma replay_notified:
  assumes "p1 = row_effect cfg e1 pay dec (payid, refid, Paid) pay" "notified_at p1 \<noteq> None"
  shows "notified_at (row_effect cfg e2 p1 dec (payid, refid, Paid) row) = notified_at row"
proof -
  show ?thesis
    using assms(2) by (auto simp: row_effect_def)
qed

lemma replay_admission:
  assumes "admission_id p1 = admission_id pay" "amount p1 = amount pay"
  shows "admission_effect p1 Paid (admission_effect pay Paid row) = admission_effect pay Paid row"
  using assms by (simp add: admission_effect_def)

subsection \<open>Paid payments and their admissions\<close>

lemma same_key_same_row:
  assumes "distinct (map g xs)" "x \<in> set xs" "y \<in> set xs" "g x = g y"
  shows "x = y"
  using assms by (auto simp: distinct_map inj_on_def)

lemma admission_effect_pk [simp]: "admission_pk (admission_effect pay st a) = admission_pk a"
  by (simp add: admission_effect_def)

lemma step_keeps_invariant:
  assumes wk: "well_keyed d" and inv: "paid_in_step d" and mem: "pay \<in> set (payments d)"
    and pays: "payments d' = map f (payments d)"
    and adms: "admissions d' = map (admission_effect pay st) (admissions d)"
    and keys: "\<And>row. payment_pk (f row) = payment_pk row \<and> admission_id (f row) = admission_id row
                 \<and> amount (f row) = amount row"
    and stat: "\<And>row. status (f row) = (if payment_pk row = payment_pk pay then st else status row)"
  shows "well_keyed d' \<and> paid_in_step d'"
proof
  show "well_keyed d'"
    using wk by (simp add: well_keyed_def pays keys o_def)
  show "paid_in_step d'"
    unfolding paid_in_step_def
  proof (intro ballI impI)
    fix p' a'
    assume p': "p' \<in> set (payments d')" and a': "a' \<in> set (admissions d')"
      and h: "status p' = Paid \<and> admission_pk a' = admission_id p'"
    from p' obtain row where row: "row \<in> set (payments d)" "p' = f row"
      by (auto simp: pays)
    from a' obtain a where a: "a \<in> set (admissions d)" "a' = admission_effect pay st a"
      by (auto simp: adms)
    have apk: "admission_pk a = admission_id row"
      using h by (simp add: a row keys)
    show "fee_status a' = FeePaid \<and> fee_paid a' = amount p'"
    proof (cases "payment_pk row = payment_pk pay")
      case True
      have "row = pay"
        using wk row(1) mem True by (auto simp: well_keyed_def intro: same_key_same_row)
      moreover have "st = Paid"
        using h True by (simp add: row stat)
      ultimately show ?thesis
        using apk by (simp add: a row keys admission_effect_def)
    next
      case False
      have paid: "status row = Paid"
        using h False by (simp add: row stat)
      have "admission_id row \<noteq> admission_id pay"
      proof
        assume "admission_id row = admission_id pay"
        then have "row = pay"
          using wk row(1) mem by (auto simp: well_keyed_def intro: same_key_same_row)
        then show False using False by simp
      qed
      then have "a' = a"
        using apk by (simp add: a admission_effect_def)
      then show ?thesis
        using inv row(1) a(1) paid apk by (auto simp: paid_in_step_def row keys)
    qed
  qed
qed

lemma find_Some_mem: "find P xs = Some x \<Longrightarrow> x \<in> set xs"
  by (auto simp: find_Some_iff)

lemma admission_effect_idle: "st \<noteq> Paid \<Longrightarrow> map (admission_effect pay st) xs = xs"
  by (intro map_idI) (simp add: admission_effect_def)

lemma row_effect_status:
  "status (row_effect cfg e pay dec (payid, refid, st) row)
   = (if payment_pk row = payment_pk pay then st else status row)"
  by (simp add: row_effect_def)

lemma store_keeps_invariant:
  assumes "well_keyed d" "paid_in_step d" "pay \<in> set (payments d)"
  shows "well_keyed (fst (store cfg e pay dec r d)) \<and> paid_in_step (fst (store cfg e pay dec r d))"
proof -
  obtain payid refid st where r: "r = (payid, refid, st)"
    by (cases r) auto
  show ?thesis
    using assms
    by (rule step_keeps_invariant [where f = "row_effect cfg e pay dec r" and st = st])
      (simp_all add: store_effect r row_effect_status)
qed

lemma notifier_rows:
  "\<exists>g. payments (fst (maybe_send_payment_notifications cfg e p d)) = map g (payments d)
       \<and> (\<forall>row. payment_pk (g row) = payment_pk row \<and> admission_id (g row) = admission_id row
                 \<and> amount (g row) = amount row \<and> status (g row) = status row)"
proof (cases "SEND_PAYMENT_NOTIFICATIONS cfg \<and> notified_at p = None \<and> escaping cfg e = None
                \<and> channel_success cfg e")
  case True
  then have "payments (fst (maybe_send_payment_notifications cfg e p d))
      = map (written [F_notified_at] (p\<lparr>notified_at := Some (now_notified e)\<rparr>)) (payments d)"
    by (simp add: notify_database payments_save_payment)
  moreover have "\<forall>row. status (written [F_notified_at] (p\<lparr>notified_at := Some (now_notified e)\<rparr>) row)
      = status row"
    by (simp add: written_notified)
  ultimately show ?thesis
    by (intro exI [where x = "written [F_notified_at] (p\<lparr>notified_at := Some (now_notified e)\<rparr>)"])
      simp
next
  case False
  then have "payments (fst (maybe_send_payment_notifications cfg e p d)) = map id (payments d)"
    by (auto simp: notify_database)
  then show ?thesis
    by (intro exI [where x = id]) simp
qed

lemma notifier_admissions [simp]:
  "admissions (fst (maybe_send_payment_notifications cfg e p d)) = admissions d"
  by (simp add: notify_database)

lemma verify_keeps_invariant:
  assumes wk: "well_keyed d" and inv: "paid_in_step d"
  shows "well_keyed (fst (snd (payment_verify cfg lib e order payid sig d)))
         \<and> paid_in_step (fst (snd (payment_verify cfg lib e order payid sig d)))"
proof (cases "payment_by_order d order")
  case None
  then show ?thesis using assms by (simp add: payment_verify_def)
next
  case (Some pay)
  then have mem: "pay \<in> set (payments d)"
    by (auto simp: payment_by_order_def dest: find_Some_mem)
  show ?thesis
  proof (cases "verify_razorpay_signature lib order payid sig (RAZORPAY_KEY_SECRET cfg)")
    case (Inl x)
    then show ?thesis using assms Some by (simp add: payment_verify_def)
  next
    case (Inr ok)
    show ?thesis
    proof (cases ok)
      case False
      let ?q = "pay\<lparr>status := Failed, payment_id := payid, signature := sig\<rparr>"
      have d': "fst (snd (payment_verify cfg lib e order payid sig d))
                = save_payment [F_status, F_payment_id, F_signature] ?q d"
        using Some Inr False by (simp add: payment_verify_def)
      show ?thesis
        unfolding d' using wk inv mem
        by (rule step_keeps_invariant
              [where f = "written [F_status, F_payment_id, F_signature] ?q" and st = Failed])
          (simp_all add: payments_save_payment admission_effect_idle written_def)
    next
      case True
      let ?p1 = "pay\<lparr>status := Paid, payment_id := payid, signature := sig,
                     paid_at := Some (now_paid e)\<rparr>"
      let ?d2 = "save_admission (admission_id pay) FeePaid (amount pay)
                   (save_payment [F_status, F_payment_id, F_signature, F_paid_at] ?p1 d)"
      have d': "fst (snd (payment_verify cfg lib e order payid sig d))
                = fst (maybe_send_payment_notifications cfg e ?p1 ?d2)"
        using Some Inr True
        by (simp add: payment_verify_def Let_def split: prod.split option.split)
      obtain g where g: "payments (fst (maybe_send_payment_notifications cfg e ?p1 ?d2))
                           = map g (payments ?d2)"
        and gk: "\<And>row. payment_pk (g row) = payment_pk row \<and> admission_id (g row) = admission_id row
                 \<and> amount (g row) = amount row \<and> status (g row) = status row"
        using notifier_rows [of cfg e ?p1 ?d2] by blast
      show ?thesis
        unfolding d' using wk inv mem
        by (rule step_keeps_invariant
              [where f = "g \<circ> written [F_status, F_payment_id, F_signature, F_paid_at] ?p1"
                 and st = Paid])
          (simp_all add: g gk payments_save_payment admissions_save_admission
             admission_effect_def written_def)
    qed
  qed
qed

lemma update_keeps_invariant:
  assumes "well_keyed d" "paid_in_step d" "pay \<in> set (payments d)"
  shows "well_keyed (fst (update_payment_from_phonepe cfg e pay dec d))
         \<and> paid_in_step (fst (update_payment_from_phonepe cfg e pay dec d))"
proof (cases "resolved dec")
  case (Inl x)
  then show ?thesis using assms by (simp add: update_via_resolved)
next
  case (Inr r)
  then show ?thesis
    using store_keeps_invariant [OF assms] by (simp add: update_via_resolved)
qed

lemma callback_database:
  "fst (snd (phonepe_callback cfg lib e req d))
   = (case callback_gate cfg lib req of
        Inl r \<Rightarrow> d
      | Inr (k, dec) \<Rightarrow>
          (case payment_by_order d (py_str k) of
             None \<Rightarrow> d
           | Some pay \<Rightarrow> fst (update_payment_from_phonepe cfg e pay dec d)))"
  by (simp add: phonepe_callback_def split: sum.split prod.split option.split)

lemma poll_database:
  "fst (snd (phonepe_status_check cfg lib e adm d))
   = (if max_db_integer < adm then d
      else
        (case payment_by_admission d adm of
           None \<Rightarrow> d
         | Some pay \<Rightarrow>
             if order_id pay = [] then d
             else (case phonepe_fetch_status cfg lib e (order_id pay) of
                     Fetched dec \<Rightarrow> fst (update_payment_from_phonepe cfg e pay dec d)
                   | _ \<Rightarrow> d)))"
  by (simp add: phonepe_status_check_def split: prod.split option.split fetched.split)

lemma callback_keeps_invariant:
  assumes wk: "well_keyed d" and inv: "paid_in_step d"
  shows "well_keyed (fst (snd (phonepe_callback cfg lib e req d)))
         \<and> paid_in_step (fst (snd (phonepe_callback cfg lib e req d)))"
proof (cases "callback_gate cfg lib req")
  case (Inl r)
  then show ?thesis using assms by (simp add: callback_database)
next
  case (Inr kd)
  obtain k dec where kd: "kd = (k, dec)" by (cases kd) auto
  show ?thesis
  proof (cases "payment_by_order d (py_str k)")
    case None
    then show ?thesis using assms Inr kd by (simp add: callback_database)
  next
    case (Some pay)
    then have mem: "pay \<in> set (payments d)"
      by (auto simp: payment_by_order_def dest: find_Some_mem)
    show ?thesis
      using update_keeps_invariant [OF wk inv mem] Inr kd Some
      by (simp add: callback_database)
  qed
qed

lemma poll_keeps_invariant:
  assumes wk: "well_keyed d" and inv: "paid_in_step d"
  shows "well_keyed (fst (snd (phonepe_status_check cfg lib e adm d)))
         \<and> paid_in_step (fst (snd (phonepe_status_check cfg lib e adm d)))"
proof (cases "payment_by_admission d adm")
  case None
  then show ?thesis using assms by (simp add: poll_database)
next
  case (Some pay)
  then have mem: "pay \<in> set (payments d)"
    by (auto simp: payment_by_admission_def dest: find_Some_mem)
  show ?thesis
  proof (cases "phonepe_fetch_status cfg lib e (order_id pay)")
    case (RuntimeError msg)
    then show ?thesis using assms Some by (simp add: poll_database)
  next
    case (FetchRaised x)
    then show ?thesis using assms Some by (simp add: poll_database)
  next
    case (Fetched dec)
    then show ?thesis
      using update_keeps_invariant [OF wk inv mem] Some assms
      by (simp add: poll_database)
  qed
qed

lemma reconcile_keeps_invariant:
  assumes "well_keyed d" "paid_in_step d"
  shows "well_keyed (fst (snd (reconcile cfg lib e ev d)))
         \<and> paid_in_step (fst (snd (reconcile cfg lib e ev d)))"
  using assms
  by (cases ev) (simp_all add: verify_keeps_invariant callback_keeps_invariant poll_keeps_invariant)

subsection \<open>The concrete installation\<close>

lemmas demo_defs = demo_lib_def demo_cfg_def demo_env_def demo_payment_def demo_admission_def
  demo_db_def paid_db_def callback_request_def paid_envelope_def failed_envelope_def
  paid_payload_def failed_payload_def hex_of_bytes_def

lemmas view_defs = payment_verify_def phonepe_callback_def phonepe_status_check_def
  phonepe_fetch_status_def update_payment_from_phonepe_def max_db_integer_def
  maybe_send_payment_notifications_def send_sms_def send_sms_twilio_def send_whatsapp_def
  send_whatsapp_cloud_def sms_configured_def whatsapp_configured_def
  verify_razorpay_signature_def verify_phonepe_callback_def phonepe_checksum_def compare_digest_def
  map_phonepe_status_def char_column_def save_payment_def save_admission_def
  payment_by_order_def payment_by_admission_def
  dict_get_def py_or_def is_ascii_def utf8_def utf8_char_def str_upper_def upper_cp_def
  str_lower_def lower_cp_def code_points_def Let_def

lemma demo_gate_paid:
  "callback_gate demo_cfg demo_lib (callback_request paid_envelope)
   = Inr (PyStr ''ADM42171700000001'', paid_payload)"
  by (simp add: callback_gate_def demo_defs view_defs)

lemma demo_gate_failed:
  "callback_gate demo_cfg demo_lib (callback_request failed_envelope)
   = Inr (PyStr ''ADM42171700000001'', failed_payload)"
  by (simp add: callback_gate_def demo_defs view_defs)

lemma demo_resolved:
  "resolved paid_payload = Inr (''T1'', ''U1'', Paid)"
  "resolved failed_payload = Inr (''T1'', ''U1'', Failed)"
  by (simp_all add: resolved_def demo_defs view_defs)

section \<open>Properties\<close>

text \<open>
  C9 (as stated: a dispatch failure is swallowed, raises no error and leaves
  \<open>notified_at\<close> null). The senders catch \<^verbatim>\<open>URLError\<close> and nothing else, and the notifier
  has no handler. When the SMS request ends in \<^verbatim>\<open>TimeoutError\<close> (the provider accepts the
  connection and does not answer in time), the exception leaves the notifier; a Paid
  callback then ends in that exception after the payment and the admission have been
  saved. The same request failing with \<^verbatim>\<open>URLError\<close> is swallowed: the callback answers
  OK over the same database.
\<close>

theorem dispatch_failure_escapes:
  "maybe_send_payment_notifications demo_cfg (demo_env 100 (Escapes TimeoutError))
     demo_payment demo_db
   = (demo_db, [(SMS, False)], Some TimeoutError)
   \<and> phonepe_callback demo_cfg demo_lib (demo_env 100 (Escapes TimeoutError))
       (callback_request paid_envelope) demo_db
     = (Raised TimeoutError,
        \<lparr>payments = [demo_payment\<lparr>payment_id := ''T1'', reference_id := ''U1'',
             gateway_response := Some paid_payload, status := Paid, paid_at := Some 100\<rparr>],
         admissions = [demo_admission\<lparr>fee_paid := 1500, fee_status := FeePaid\<rparr>]\<rparr>,
        [(SMS, False)])
   \<and> phonepe_callback demo_cfg demo_lib (demo_env 100 URLError)
       (callback_request paid_envelope) demo_db
     = (HttpResponse ''OK'' 200,
        \<lparr>payments = [demo_payment\<lparr>payment_id := ''T1'', reference_id := ''U1'',
             gateway_response := Some paid_payload, status := Paid, paid_at := Some 100\<rparr>],
         admissions = [demo_admission\<lparr>fee_paid := 1500, fee_status := FeePaid\<rparr>]\<rparr>,
        [(SMS, False)])"
proof -
  have 1: "maybe_send_payment_notifications demo_cfg (demo_env 100 (Escapes TimeoutError))
     demo_payment demo_db = (demo_db, [(SMS, False)], Some TimeoutError)"
    by (simp add: demo_defs view_defs)
  have 2: "phonepe_callback demo_cfg demo_lib (demo_env 100 (Escapes TimeoutError))
       (callback_request paid_envelope) demo_db
     = (Raised TimeoutError,
        \<lparr>payments = [demo_payment\<lparr>payment_id := ''T1'', reference_id := ''U1'',
             gateway_response := Some paid_payload, status := Paid, paid_at := Some 100\<rparr>],
         admissions = [demo_admission\<lparr>fee_paid := 1500, fee_status := FeePaid\<rparr>]\<rparr>,
        [(SMS, False)])"
    unfolding phonepe_callback_def demo_gate_paid
    by (simp add: demo_defs view_defs)
  have 3: "phonepe_callback demo_cfg demo_lib (demo_env 100 URLError)
       (callback_request paid_envelope) demo_db
     = (HttpResponse ''OK'' 200,
        \<lparr>payments = [demo_payment\<lparr>payment_id := ''T1'', reference_id := ''U1'',
             gateway_response := Some paid_payload, status := Paid, paid_at := Some 100\<rparr>],
         admissions = [demo_admission\<lparr>fee_paid := 1500, fee_status := FeePaid\<rparr>]\<rparr>,
        [(SMS, False)])"
    unfolding phonepe_callback_def demo_gate_paid
    by (simp add: demo_defs view_defs)
  show ?thesis
    by (intro conjI) (rule 1, rule 2, rule 3)
qed

text \<open>
  C1 (as stated: a Paid payment keeps its status under every later outcome). The code
  does not: none of the three entry points looks at the current status. On the paid
  installation a redirect-verify with a forged signature, a callback carrying the
  failed envelope and a poll answered with the failed payload each leave the payment
  Failed.
\<close>

theorem paid_regresses:
  "map status (payments paid_db) = [Paid]
   \<and> map status (payments (fst (snd (payment_verify demo_cfg demo_lib (demo_env 100 URLError)
          ''ADM42171700000001'' ''pay_forged'' ''forged'' paid_db)))) = [Failed]
   \<and> map status (payments (fst (snd (phonepe_callback demo_cfg demo_lib (demo_env 100 URLError)
          (callback_request failed_envelope) paid_db)))) = [Failed]
   \<and> map status (payments (fst (snd (phonepe_status_check demo_cfg demo_lib (demo_env 100 URLError)
          42 paid_db)))) = [Failed]"
proof -
  have 1: "map status (payments paid_db) = [Paid]"
    by (simp add: demo_defs)
  have 2: "map status (payments (fst (snd (payment_verify demo_cfg demo_lib (demo_env 100 URLError)
          ''ADM42171700000001'' ''pay_forged'' ''forged'' paid_db)))) = [Failed]"
    by (simp add: demo_defs view_defs)
  have 3: "map status (payments (fst (snd (phonepe_callback demo_cfg demo_lib (demo_env 100 URLError)
          (callback_request failed_envelope) paid_db)))) = [Failed]"
    unfolding phonepe_callback_def demo_gate_failed
    by (simp add: demo_defs view_defs)
  have 4: "map status (payments (fst (snd (phonepe_status_check demo_cfg demo_lib (demo_env 100 URLError)
          42 paid_db)))) = [Failed]"
    by (simp add: demo_defs view_defs)
  show ?thesis using 1 2 3 4 by simp
qed

text \<open>
  C4 (as stated: each of the six provider words maps whichever of the two fields carries
  it). The code reads \<^verbatim>\<open>PAYMENT_SUCCESS\<close> and \<^verbatim>\<open>PAYMENT_ERROR\<close> only in the response code,
  \<^verbatim>\<open>COMPLETED\<close> and \<^verbatim>\<open>ERROR\<close> only in the state: in the other field they map to Pending.
\<close>

theorem status_mapping_counterexample:
  "map_phonepe_status (PyStr ''PAYMENT_SUCCESS'') (PyStr []) = Pending
   \<and> map_phonepe_status (PyStr []) (PyStr ''COMPLETED'') = Pending
   \<and> map_phonepe_status (PyStr ''PAYMENT_ERROR'') (PyStr []) = Pending
   \<and> map_phonepe_status (PyStr []) (PyStr ''ERROR'') = Pending"
  by (simp add: map_phonepe_status_def str_upper_def upper_cp_def code_points_def)

text \<open>
  C4 (amended). For a state \<open>s\<close> and a response code \<open>c\<close> written in ASCII the status is
  Paid when \<open>s\<close> is COMPLETED or SUCCESS or \<open>c\<close> is PAYMENT_SUCCESS or SUCCESS, whatever the
  case of their letters; otherwise Failed when \<open>s\<close> is FAILED or ERROR or \<open>c\<close> is
  PAYMENT_ERROR or FAILED; otherwise Pending. For all strings, changing the case of
  the letters a to z in either field does not change the status.
\<close>

theorem status_mapping:
  "(is_ascii s \<and> is_ascii c \<longrightarrow>
      map_phonepe_status (PyStr s) (PyStr c) =
        (if ascii_upper s \<in> {''COMPLETED'', ''SUCCESS''}
            \<or> ascii_upper c \<in> {''PAYMENT_SUCCESS'', ''SUCCESS''}
         then Paid
         else if ascii_upper s \<in> {''FAILED'', ''ERROR''}
            \<or> ascii_upper c \<in> {''PAYMENT_ERROR'', ''FAILED''}
         then Failed
         else Pending))
   \<and> (ascii_upper s = ascii_upper s' \<and> ascii_upper c = ascii_upper c' \<longrightarrow>
        map_phonepe_status (PyStr s) (PyStr c) = map_phonepe_status (PyStr s') (PyStr c'))"
proof (intro conjI impI)
  assume "is_ascii s \<and> is_ascii c"
  then show "map_phonepe_status (PyStr s) (PyStr c) =
        (if ascii_upper s \<in> {''COMPLETED'', ''SUCCESS''}
            \<or> ascii_upper c \<in> {''PAYMENT_SUCCESS'', ''SUCCESS''}
         then Paid
         else if ascii_upper s \<in> {''FAILED'', ''ERROR''}
            \<or> ascii_upper c \<in> {''PAYMENT_ERROR'', ''FAILED''}
         then Failed
         else Pending)"
    by (simp add: map_phonepe_status_def str_upper_ascii)
next
  assume a: "ascii_upper s = ascii_upper s' \<and> ascii_upper c = ascii_upper c'"
  have "str_upper s = str_upper s'" "str_upper c = str_upper c'"
    using a str_upper_ascii_upper [of s] str_upper_ascii_upper [of s']
      str_upper_ascii_upper [of c] str_upper_ascii_upper [of c'] by simp_all
  then show "map_phonepe_status (PyStr s) (PyStr c) = map_phonepe_status (PyStr s') (PyStr c')"
    by (simp add: map_phonepe_status_def)
qed

theorem status_mapping_witness:
  "is_ascii ''Completed'' \<and> is_ascii ''payment_error''
   \<and> ascii_upper ''Completed'' = ''COMPLETED''
   \<and> map_phonepe_status (PyStr ''Completed'') (PyStr ''payment_error'') = Paid
   \<and> map_phonepe_status (PyStr ''failed'') (PyStr ''pending'') = Failed
   \<and> map_phonepe_status (PyStr ''created'') (PyStr ''payment_pending'') = Pending
   \<and> map_phonepe_status (PyStr ''completed'') (PyStr ''x'')
       = map_phonepe_status (PyStr ''COMPLETED'') (PyStr ''X'')"
proof -
  have a: "is_ascii ''Completed''" "is_ascii ''payment_error''" "is_ascii ''failed''"
    "is_ascii ''pending''" "is_ascii ''created''" "is_ascii ''payment_pending''"
    by (simp_all add: is_ascii_def)
  have u: "ascii_upper ''Completed'' = ''COMPLETED''"
    "ascii_upper ''payment_error'' = ''PAYMENT_ERROR''"
    "ascii_upper ''failed'' = ''FAILED''" "ascii_upper ''pending'' = ''PENDING''"
    "ascii_upper ''created'' = ''CREATED''"
    "ascii_upper ''payment_pending'' = ''PAYMENT_PENDING''"
    "ascii_upper ''completed'' = ''COMPLETED''" "ascii_upper ''COMPLETED'' = ''COMPLETED''"
    "ascii_upper ''x'' = ''X''" "ascii_upper ''X'' = ''X''"
    by (simp_all add: ascii_upper_def ascii_upper_char_def char_of_eq_iff)
  show ?thesis
    using a u
      status_mapping [where s = "''Completed''" and c = "''payment_error''"]
      status_mapping [where s = "''failed''" and c = "''pending''"]
      status_mapping [where s = "''created''" and c = "''payment_pending''"]
      status_mapping [where s = "''completed''" and c = "''x''"
        and s' = "''COMPLETED''" and c' = "''X''"]
    by simp
qed

text \<open>
  C6 (as stated: every signature that does not verify ends in a Failed payment with the
  offered values stored). A signature with a character outside ASCII does not verify,
  but \<^verbatim>\<open>hmac.compare_digest\<close> raises \<^verbatim>\<open>TypeError\<close> on it, no handler catches that, and the
  view ends before it writes: the payment stays as it was.
\<close>

theorem non_ascii_signature_raises:
  "payment_verify demo_cfg demo_lib (demo_env 100 URLError)
     ''ADM42171700000001'' ''pay_1'' [CHR 0xE9] demo_db = (Raised TypeError, demo_db, [])"
  by (simp add: demo_defs view_defs)

text \<open>
  C8 (as stated: the callback check accepts exactly the digest over payload, API path
  and salt key). The check leaves the API path out: a header computed by
  \<open>phonepe_checksum\<close> for the path \<^verbatim>\<open>/pg/v1/pay\<close> is rejected, and the one computed for the
  empty path is accepted. (With the stand-in digest of \<open>demo_lib\<close>; any digest that
  tells the two inputs apart behaves the same.)
\<close>

theorem callback_checksum_counterexample:
  "verify_phonepe_callback demo_lib (PyStr ''e30='')
     (Some (phonepe_checksum demo_lib ''e30='' ''/pg/v1/pay'' ''salt'' ''1'')) ''salt'' ''1''
   = Inr False
   \<and> verify_phonepe_callback demo_lib (PyStr ''e30='')
     (Some (phonepe_checksum demo_lib ''e30='' [] ''salt'' ''1'')) ''salt'' ''1''
   = Inr True"
  by (simp add: verify_phonepe_callback_def phonepe_checksum_def compare_digest_def is_ascii_def
      demo_lib_def hex_of_bytes_def utf8_def utf8_char_def)

text \<open>
  C8 (amended). The callback check accepts a header exactly when the header is the
  digest over the envelope followed by the salt key (no API path), followed by
  \<^verbatim>\<open>###\<close> and the salt index, and is written in ASCII; a request without the header
  is rejected.
\<close>

theorem callback_checksum:
  "(verify_phonepe_callback lib (PyStr b64) (Some h) salt_key salt_index = Inr True
      \<longleftrightarrow> h = phonepe_checksum lib b64 [] salt_key salt_index \<and> is_ascii h)
   \<and> verify_phonepe_callback lib (PyStr b64) None salt_key salt_index = Inr False"
  by (auto simp: verify_phonepe_callback_def phonepe_checksum_def compare_digest_def)

theorem callback_checksum_witness:
  "verify_phonepe_callback demo_lib (PyStr ''e30='') (Some ''abc'') ''salt'' ''1'' \<noteq> Inr True
   \<and> verify_phonepe_callback demo_lib (PyStr ''e30='') None ''salt'' ''1'' = Inr False"
proof -
  have "''abc'' \<noteq> phonepe_checksum demo_lib ''e30='' [] ''salt'' ''1''"
    by (simp add: phonepe_checksum_def demo_lib_def hex_of_bytes_def utf8_def utf8_char_def)
  then show ?thesis
    using callback_checksum [where lib = demo_lib and ?b64.0 = "''e30=''" and h = "''abc''"
        and salt_key = "''salt''" and salt_index = "''1''"]
    by simp
qed

text \<open>
  C10. The provider-A check answers False, whatever the library computes, as soon as
  the order id, the payment id, the signature or the secret is empty. So with no
  secret configured, a redirect-verify that finds a payment stores it as Failed with
  the offered payment id and signature, answers with the verification error, and
  leaves the admissions alone.
\<close>

theorem razorpay_empty_rejected:
  "(order = [] \<or> payid = [] \<or> sig = [] \<or> key_secret = []
      \<longrightarrow> verify_razorpay_signature lib order payid sig key_secret = Inr False)
   \<and> (RAZORPAY_KEY_SECRET cfg = [] \<and> payment_by_order d order = Some pay
      \<longrightarrow> payment_verify cfg lib e order payid sig d
            = (Redirect (AdmissionSuccess (admission_id pay)) MsgError
                 ''Payment verification failed.'',
               save_payment [F_status, F_payment_id, F_signature]
                 (pay\<lparr>status := Failed, payment_id := payid, signature := sig\<rparr>) d, [])
          \<and> payment_by_order (fst (snd (payment_verify cfg lib e order payid sig d))) order
            = Some (pay\<lparr>status := Failed, payment_id := payid, signature := sig\<rparr>)
          \<and> admissions (fst (snd (payment_verify cfg lib e order payid sig d))) = admissions d)"
  by (auto simp: verify_razorpay_signature_def payment_verify_def
      payment_by_order_save_payment written_def)

theorem razorpay_empty_rejected_witness:
  "verify_razorpay_signature demo_lib ''ADM42171700000001'' ''pay_1'' ''sig'' [] = Inr False
   \<and> RAZORPAY_KEY_SECRET (demo_cfg\<lparr>RAZORPAY_KEY_SECRET := []\<rparr>) = []
   \<and> payment_by_order demo_db ''ADM42171700000001'' = Some demo_payment
   \<and> payment_by_order
        (fst (snd (payment_verify (demo_cfg\<lparr>RAZORPAY_KEY_SECRET := []\<rparr>) demo_lib
                     (demo_env 100 URLError) ''ADM42171700000001'' ''pay_1'' ''sig'' demo_db)))
        ''ADM42171700000001''
       = Some (demo_payment\<lparr>status := Failed, payment_id := ''pay_1'', signature := ''sig''\<rparr>)"
proof -
  have h1: "RAZORPAY_KEY_SECRET (demo_cfg\<lparr>RAZORPAY_KEY_SECRET := []\<rparr>) = []"
    by simp
  have h2: "payment_by_order demo_db ''ADM42171700000001'' = Some demo_payment"
    by (simp add: demo_db_def demo_payment_def payment_by_order_def)
  have h3: "''ADM42171700000001'' = [] \<or> ''pay_1'' = [] \<or> ''sig'' = [] \<or> ([] :: string) = []"
    by simp
  show ?thesis
    using h1 h2 h3
      razorpay_empty_rejected [where order = "''ADM42171700000001''" and payid = "''pay_1''"
        and sig = "''sig''" and key_secret = "[]" and lib = demo_lib
        and cfg = "demo_cfg\<lparr>RAZORPAY_KEY_SECRET := []\<rparr>" and d = demo_db
        and pay = demo_payment and e = "demo_env 100 URLError"]
    by blast
qed




text \<open>
  C3 (as stated: once set, \<open>paid_at\<close> is never overwritten). The reconcile paths assign
  \<open>paid_at\<close> on every Paid outcome: on the installation paid at clock reading 50, a
  repeated Paid callback at reading 100 and a valid redirect-verify at reading 100 each
  leave \<open>paid_at\<close> at 100. \<open>admission_success\<close>, which fills \<open>paid_at\<close> only where it is
  null, leaves it alone.
\<close>

theorem paid_at_overwritten:
  "map paid_at (payments paid_db) = [Some 50]
   \<and> map paid_at (payments (fst (snd (phonepe_callback demo_cfg demo_lib (demo_env 100 URLError)
          (callback_request paid_envelope) paid_db)))) = [Some 100]
   \<and> map paid_at (payments (fst (snd (payment_verify demo_cfg demo_lib (demo_env 100 URLError)
          ''ADM42171700000001'' ''pay_1''
          (hmac_sha256_hexdigest demo_lib (utf8 ''secret'') (utf8 ''ADM42171700000001|pay_1''))
          paid_db)))) = [Some 100]
   \<and> admission_success (demo_env 100 URLError) 42 paid_db = Inr paid_db"
proof -
  have 1: "map paid_at (payments paid_db) = [Some 50]"
    by (simp add: demo_defs)
  have 2: "map paid_at (payments (fst (snd (phonepe_callback demo_cfg demo_lib
          (demo_env 100 URLError) (callback_request paid_envelope) paid_db)))) = [Some 100]"
    unfolding phonepe_callback_def demo_gate_paid
    by (simp add: demo_defs view_defs)
  have 3: "map paid_at (payments (fst (snd (payment_verify demo_cfg demo_lib (demo_env 100 URLError)
          ''ADM42171700000001'' ''pay_1''
          (hmac_sha256_hexdigest demo_lib (utf8 ''secret'') (utf8 ''ADM42171700000001|pay_1''))
          paid_db)))) = [Some 100]"
    by (simp add: demo_defs view_defs)
  have 4: "admission_success (demo_env 100 URLError) 42 paid_db = Inr paid_db"
    by (simp add: admission_success_def admission_row_def demo_defs view_defs)
  show ?thesis using 1 2 3 4 by simp
qed

text \<open>
  C5 (as stated: after any sequence of reconciliations the admission's fee status is
  Paid exactly when the payment's status is Paid). After a Paid callback followed by a
  Failed callback the payment is Failed and the admission still has fee status Paid.
\<close>

theorem fee_status_outlives_payment:
  "map status (payments demo_db) = [Pending] \<and> map fee_status (admissions demo_db) = [FeePending]
   \<and> map status (payments (run demo_cfg demo_lib
        [(demo_env 100 URLError, Callback (callback_request paid_envelope)),
         (demo_env 200 URLError, Callback (callback_request failed_envelope))] demo_db)) = [Failed]
   \<and> map fee_status (admissions (run demo_cfg demo_lib
        [(demo_env 100 URLError, Callback (callback_request paid_envelope)),
         (demo_env 200 URLError, Callback (callback_request failed_envelope))] demo_db)) = [FeePaid]"
proof -
  have 1: "fst (snd (phonepe_callback demo_cfg demo_lib (demo_env 100 URLError)
              (callback_request paid_envelope) demo_db))
      = \<lparr>payments = [demo_payment\<lparr>payment_id := ''T1'', reference_id := ''U1'',
              gateway_response := Some paid_payload, status := Paid, paid_at := Some 100\<rparr>],
         admissions = [demo_admission\<lparr>fee_paid := 1500, fee_status := FeePaid\<rparr>]\<rparr>"
    unfolding phonepe_callback_def demo_gate_paid
    by (simp add: demo_defs view_defs)
  have 2: "fst (snd (phonepe_callback demo_cfg demo_lib (demo_env 200 URLError)
              (callback_request failed_envelope)
              \<lparr>payments = [demo_payment\<lparr>payment_id := ''T1'', reference_id := ''U1'',
                  gateway_response := Some paid_payload, status := Paid, paid_at := Some 100\<rparr>],
               admissions = [demo_admission\<lparr>fee_paid := 1500, fee_status := FeePaid\<rparr>]\<rparr>))
      = \<lparr>payments = [demo_payment\<lparr>payment_id := ''T1'', reference_id := ''U1'',
              gateway_response := Some failed_payload, status := Failed, paid_at := Some 100\<rparr>],
         admissions = [demo_admission\<lparr>fee_paid := 1500, fee_status := FeePaid\<rparr>]\<rparr>"
    unfolding phonepe_callback_def demo_gate_failed
    by (simp add: demo_defs view_defs)
  show ?thesis
    by (simp add: 1 2) (simp add: demo_db_def demo_payment_def demo_admission_def)
qed

text \<open>
  C2 (as stated: the second application of the same Paid callback leaves every field as
  the first left it). When the SMS request of the first application fails and that of
  the second succeeds, the second application sends again and stamps \<open>notified_at\<close>:
  the payment differs from what one application left (both at clock reading 100).
\<close>

theorem replay_counterexample:
  "map notified_at (payments (run demo_cfg demo_lib
       [(demo_env 100 URLError, Callback (callback_request paid_envelope))] demo_db)) = [None]
   \<and> map notified_at (payments (run demo_cfg demo_lib
       [(demo_env 100 URLError, Callback (callback_request paid_envelope)),
        (demo_env 100 (Responded 201), Callback (callback_request paid_envelope))] demo_db))
       = [Some 100]"
proof -
  have 1: "fst (snd (phonepe_callback demo_cfg demo_lib (demo_env 100 URLError)
              (callback_request paid_envelope) demo_db))
      = \<lparr>payments = [demo_payment\<lparr>payment_id := ''T1'', reference_id := ''U1'',
              gateway_response := Some paid_payload, status := Paid, paid_at := Some 100\<rparr>],
         admissions = [demo_admission\<lparr>fee_paid := 1500, fee_status := FeePaid\<rparr>]\<rparr>"
    unfolding phonepe_callback_def demo_gate_paid
    by (simp add: demo_defs view_defs)
  have 2: "fst (snd (phonepe_callback demo_cfg demo_lib (demo_env 100 (Responded 201))
              (callback_request paid_envelope)
              \<lparr>payments = [demo_payment\<lparr>payment_id := ''T1'', reference_id := ''U1'',
                  gateway_response := Some paid_payload, status := Paid, paid_at := Some 100\<rparr>],
               admissions = [demo_admission\<lparr>fee_paid := 1500, fee_status := FeePaid\<rparr>]\<rparr>))
      = \<lparr>payments = [demo_payment\<lparr>payment_id := ''T1'', reference_id := ''U1'',
              gateway_response := Some paid_payload, status := Paid, paid_at := Some 100,
              notified_at := Some 100\<rparr>],
         admissions = [demo_admission\<lparr>fee_paid := 1500, fee_status := FeePaid\<rparr>]\<rparr>"
    unfolding phonepe_callback_def demo_gate_paid
    by (simp add: demo_defs view_defs)
  show ?thesis
    by (simp add: 1 2) (simp add: demo_payment_def)
qed

text \<open>
  C2 (amended). When a callback has been applied, was answered OK and left its payment
  Paid, applying the same request again leaves the payment Paid; apart from the columns
  \<open>paid_at\<close> and \<open>notified_at\<close> the payments table is as the first application left
  it, and so are the admissions (fee paid and fee status included). If the first
  application left \<open>notified_at\<close> set, the second is answered OK, sends nothing and
  leaves every \<open>notified_at\<close> as it was; and a successful dispatch in the first
  application does leave \<open>notified_at\<close> set. If the first application left
  \<open>notified_at\<close> null and no notification request of the second raises, the second is
  answered OK, sends to every configured channel again (when notifications are enabled)
  and stamps \<open>notified_at\<close> exactly when one of them succeeds. So at most one of the two
  applications dispatches successfully, while a first application whose dispatch failed
  lets the second try again.
\<close>

theorem paid_replay:
  assumes gate: "callback_gate cfg lib req = Inr (k, dec)"
    and first: "phonepe_callback cfg lib e1 req d = (HttpResponse ''OK'' 200, d1, l1)"
    and found1: "payment_by_order d1 (py_str k) = Some p1"
    and paid1: "status p1 = Paid"
  shows "\<exists>r2 d2 l2 p2.
           phonepe_callback cfg lib e2 req d1 = (r2, d2, l2)
         \<and> payment_by_order d2 (py_str k) = Some p2 \<and> status p2 = Paid
         \<and> without_stamps (payments d2) = without_stamps (payments d1)
         \<and> admissions d2 = admissions d1
         \<and> (notified_at p1 \<noteq> None
              \<longrightarrow> r2 = HttpResponse ''OK'' 200 \<and> l2 = []
                  \<and> map notified_at (payments d2) = map notified_at (payments d1))
         \<and> (notified_at p1 = None \<and> escaping cfg e2 = None
              \<longrightarrow> r2 = HttpResponse ''OK'' 200
                  \<and> l2 = (if SEND_PAYMENT_NOTIFICATIONS cfg then attempts cfg e2 else [])
                  \<and> notified_at p2
                      = (if SEND_PAYMENT_NOTIFICATIONS cfg \<and> channel_success cfg e2
                         then Some (now_notified e2) else None))
         \<and> ((\<exists>x \<in> set l1. snd x) \<longrightarrow> notified_at p1 \<noteq> None)"
proof -
  from callback_ok [OF gate first] obtain pay r where
    found: "payment_by_order d (py_str k) = Some pay" and res: "resolved dec = Inr r"
    and d1: "d1 = fst (store cfg e1 pay dec r d)"
    and l1: "l1 = fst (snd (store cfg e1 pay dec r d))"
    and x1: "snd (snd (store cfg e1 pay dec r d)) = None"
    by blast
  obtain payid refid st where r: "r = (payid, refid, st)"
    by (cases r) auto
  have p1: "p1 = row_effect cfg e1 pay dec r pay"
    using found1 found by (simp add: d1 payment_by_order_store)
  have st: "st = Paid"
    using paid1 by (simp add: p1 r row_effect_def)
  have p1': "p1 = row_effect cfg e1 pay dec (payid, refid, Paid) pay"
    using p1 r st by simp
  let ?d2 = "fst (store cfg e2 p1 dec r d1)"
  let ?l2 = "fst (snd (store cfg e2 p1 dec r d1))"
  let ?x2 = "snd (snd (store cfg e2 p1 dec r d1))"
  let ?r2 = "case ?x2 of None \<Rightarrow> HttpResponse ''OK'' 200 | Some x \<Rightarrow> Raised x"
  let ?p2 = "row_effect cfg e2 p1 dec r p1"
  have second: "phonepe_callback cfg lib e2 req d1 = (?r2, ?d2, ?l2)"
    by (rule callback_found [OF gate found1 res])
  have found2: "payment_by_order ?d2 (py_str k) = Some ?p2"
    by (simp add: payment_by_order_store found1)
  have paid2: "status ?p2 = Paid"
    by (simp add: r st row_effect_def)
  have pays1: "payments d1 = map (row_effect cfg e1 pay dec (payid, refid, Paid)) (payments d)"
    by (simp add: d1 store_effect(1) r st)
  have pays2: "payments ?d2 = map (row_effect cfg e2 p1 dec (payid, refid, Paid)) (payments d1)"
    by (simp add: store_effect(1) r st)
  have stamps: "without_stamps (payments ?d2) = without_stamps (payments d1)"
    by (simp add: pays2 pays1 without_stamps_def replay_row [OF p1'])
  have adms: "admissions ?d2 = admissions d1"
    by (simp add: store_effect(2) d1 r st replay_admission p1')
  have l2: "?l2 = (if SEND_PAYMENT_NOTIFICATIONS cfg \<and> notified_at p1 = None
                   then attempts cfg e2 else [])"
    by (simp add: store_effect(3) r st)
  have x2: "?x2 = (if SEND_PAYMENT_NOTIFICATIONS cfg \<and> notified_at p1 = None
                   then escaping cfg e2 else None)"
    by (simp add: store_effect(4) r st)
  have quiet: "?r2 = HttpResponse ''OK'' 200 \<and> ?l2 = []
               \<and> map notified_at (payments ?d2) = map notified_at (payments d1)"
    if "notified_at p1 \<noteq> None"
  proof -
    have "?x2 = None" "?l2 = []"
      using that by (auto simp: x2 l2)
    moreover have "map notified_at (payments ?d2) = map notified_at (payments d1)"
      by (simp add: pays2 replay_notified [OF p1' that] o_def)
    ultimately show ?thesis by simp
  qed
  have retry: "?r2 = HttpResponse ''OK'' 200
               \<and> ?l2 = (if SEND_PAYMENT_NOTIFICATIONS cfg then attempts cfg e2 else [])
               \<and> notified_at ?p2
                   = (if SEND_PAYMENT_NOTIFICATIONS cfg \<and> channel_success cfg e2
                      then Some (now_notified e2) else None)"
    if "notified_at p1 = None \<and> escaping cfg e2 = None"
  proof -
    have "?x2 = None" "?l2 = (if SEND_PAYMENT_NOTIFICATIONS cfg then attempts cfg e2 else [])"
      using that by (simp_all add: x2 l2)
    moreover have "notified_at ?p2
                   = (if SEND_PAYMENT_NOTIFICATIONS cfg \<and> channel_success cfg e2
                      then Some (now_notified e2) else None)"
      using that by (simp add: r st row_effect_def)
    ultimately show ?thesis by simp
  qed
  have sent: "notified_at p1 \<noteq> None" if "\<exists>x \<in> set l1. snd x"
  proof -
    have "l1 \<noteq> []" using that by auto
    then have on: "SEND_PAYMENT_NOTIFICATIONS cfg \<and> notified_at pay = None"
      and l1': "l1 = attempts cfg e1"
      using l1 by (auto simp: store_effect(3) split: if_splits)
    have quiet1: "escaping cfg e1 = None"
      using x1 on by (simp add: store_effect(4) r st)
    have "channel_success cfg e1"
      using that attempts_success [OF quiet1] by (simp add: l1')
    then show ?thesis using on quiet1 by (simp add: p1' row_effect_def)
  qed
  show ?thesis
    using second found2 paid2 stamps adms quiet retry sent by blast
qed

theorem paid_replay_witness:
  "callback_gate demo_cfg demo_lib (callback_request paid_envelope)
     = Inr (PyStr ''ADM42171700000001'', paid_payload)
   \<and> phonepe_callback demo_cfg demo_lib (demo_env 100 (Responded 201))
       (callback_request paid_envelope) demo_db
     = (HttpResponse ''OK'' 200,
        \<lparr>payments = [demo_payment\<lparr>payment_id := ''T1'', reference_id := ''U1'',
             gateway_response := Some paid_payload, status := Paid, paid_at := Some 100,
             notified_at := Some 100\<rparr>],
         admissions = [demo_admission\<lparr>fee_paid := 1500, fee_status := FeePaid\<rparr>]\<rparr>,
        [(SMS, True)])
   \<and> (\<exists>d2 p2.
         phonepe_callback demo_cfg demo_lib (demo_env 200 (Responded 201))
           (callback_request paid_envelope)
           \<lparr>payments = [demo_payment\<lparr>payment_id := ''T1'', reference_id := ''U1'',
                gateway_response := Some paid_payload, status := Paid, paid_at := Some 100,
                notified_at := Some 100\<rparr>],
            admissions = [demo_admission\<lparr>fee_paid := 1500, fee_status := FeePaid\<rparr>]\<rparr>
           = (HttpResponse ''OK'' 200, d2, [])
         \<and> payment_by_order d2 ''ADM42171700000001'' = Some p2 \<and> status p2 = Paid
         \<and> map notified_at (payments d2) = [Some 100]
         \<and> map fee_paid (admissions d2) = [1500]
         \<and> map fee_status (admissions d2) = [FeePaid])
   \<and> phonepe_callback demo_cfg demo_lib (demo_env 100 URLError)
       (callback_request paid_envelope) demo_db
     = (HttpResponse ''OK'' 200,
        \<lparr>payments = [demo_payment\<lparr>payment_id := ''T1'', reference_id := ''U1'',
             gateway_response := Some paid_payload, status := Paid, paid_at := Some 100\<rparr>],
         admissions = [demo_admission\<lparr>fee_paid := 1500, fee_status := FeePaid\<rparr>]\<rparr>,
        [(SMS, False)])
   \<and> (\<exists>d2 p2.
         phonepe_callback demo_cfg demo_lib (demo_env 200 (Responded 201))
           (callback_request paid_envelope)
           \<lparr>payments = [demo_payment\<lparr>payment_id := ''T1'', reference_id := ''U1'',
                gateway_response := Some paid_payload, status := Paid, paid_at := Some 100\<rparr>],
            admissions = [demo_admission\<lparr>fee_paid := 1500, fee_status := FeePaid\<rparr>]\<rparr>
           = (HttpResponse ''OK'' 200, d2, [(SMS, True)])
         \<and> payment_by_order d2 ''ADM42171700000001'' = Some p2 \<and> status p2 = Paid
         \<and> notified_at p2 = Some 200
         \<and> map fee_paid (admissions d2) = [1500]
         \<and> map fee_status (admissions d2) = [FeePaid])"
proof -
  let ?d1 = "\<lparr>payments = [demo_payment\<lparr>payment_id := ''T1'', reference_id := ''U1'',
             gateway_response := Some paid_payload, status := Paid, paid_at := Some 100,
             notified_at := Some 100\<rparr>],
         admissions = [demo_admission\<lparr>fee_paid := 1500, fee_status := FeePaid\<rparr>]\<rparr>"
  let ?p1 = "demo_payment\<lparr>payment_id := ''T1'', reference_id := ''U1'',
             gateway_response := Some paid_payload, status := Paid, paid_at := Some 100,
             notified_at := Some 100\<rparr>"
  let ?d1' = "\<lparr>payments = [demo_payment\<lparr>payment_id := ''T1'', reference_id := ''U1'',
             gateway_response := Some paid_payload, status := Paid, paid_at := Some 100\<rparr>],
         admissions = [demo_admission\<lparr>fee_paid := 1500, fee_status := FeePaid\<rparr>]\<rparr>"
  let ?p1' = "demo_payment\<lparr>payment_id := ''T1'', reference_id := ''U1'',
             gateway_response := Some paid_payload, status := Paid, paid_at := Some 100\<rparr>"
  let ?e2 = "demo_env 200 (Responded 201)"
  have first: "phonepe_callback demo_cfg demo_lib (demo_env 100 (Responded 201))
       (callback_request paid_envelope) demo_db = (HttpResponse ''OK'' 200, ?d1, [(SMS, True)])"
    unfolding phonepe_callback_def demo_gate_paid
    by (simp add: demo_defs view_defs)
  have found1: "payment_by_order ?d1 (py_str (PyStr ''ADM42171700000001'')) = Some ?p1"
    by (simp add: payment_by_order_def demo_payment_def)
  have paid1: "status ?p1 = Paid"
    by simp
  have n1: "notified_at ?p1 \<noteq> None" "map notified_at (payments ?d1) = [Some 100]"
    "admissions ?d1 = [demo_admission\<lparr>fee_paid := 1500, fee_status := FeePaid\<rparr>]"
    by simp_all
  from paid_replay [OF demo_gate_paid first found1 paid1, where ?e2.0 = ?e2]
  obtain r2 d2 l2 p2 where
    "phonepe_callback demo_cfg demo_lib ?e2 (callback_request paid_envelope) ?d1 = (r2, d2, l2)"
    "payment_by_order d2 (py_str (PyStr ''ADM42171700000001'')) = Some p2" "status p2 = Paid"
    "admissions d2 = admissions ?d1"
    "r2 = HttpResponse ''OK'' 200 \<and> l2 = []
     \<and> map notified_at (payments d2) = map notified_at (payments ?d1)"
    using n1(1) by blast
  then have "phonepe_callback demo_cfg demo_lib ?e2 (callback_request paid_envelope) ?d1
           = (HttpResponse ''OK'' 200, d2, [])
         \<and> payment_by_order d2 ''ADM42171700000001'' = Some p2 \<and> status p2 = Paid
         \<and> map notified_at (payments d2) = [Some 100]
         \<and> map fee_paid (admissions d2) = [1500]
         \<and> map fee_status (admissions d2) = [FeePaid]"
    by (simp add: demo_admission_def)
  then have second: "\<exists>d2 p2.
         phonepe_callback demo_cfg demo_lib ?e2 (callback_request paid_envelope) ?d1
           = (HttpResponse ''OK'' 200, d2, [])
         \<and> payment_by_order d2 ''ADM42171700000001'' = Some p2 \<and> status p2 = Paid
         \<and> map notified_at (payments d2) = [Some 100]
         \<and> map fee_paid (admissions d2) = [1500]
         \<and> map fee_status (admissions d2) = [FeePaid]"
    by (intro exI)
  have first': "phonepe_callback demo_cfg demo_lib (demo_env 100 URLError)
       (callback_request paid_envelope) demo_db = (HttpResponse ''OK'' 200, ?d1', [(SMS, False)])"
    unfolding phonepe_callback_def demo_gate_paid
    by (simp add: demo_defs view_defs)
  have found1': "payment_by_order ?d1' (py_str (PyStr ''ADM42171700000001'')) = Some ?p1'"
    by (simp add: payment_by_order_def demo_payment_def)
  have paid1': "status ?p1' = Paid"
    by simp
  have n1': "notified_at ?p1' = None"
    "admissions ?d1' = [demo_admission\<lparr>fee_paid := 1500, fee_status := FeePaid\<rparr>]"
    by (simp_all add: demo_payment_def)
  have world: "escaping demo_cfg ?e2 = None" "SEND_PAYMENT_NOTIFICATIONS demo_cfg"
    "attempts demo_cfg ?e2 = [(SMS, True)]" "channel_success demo_cfg ?e2"
    "now_notified ?e2 = 200"
    by (simp_all add: escaping_def attempts_def channel_success_def sms_configured_def
        whatsapp_configured_def demo_cfg_def demo_env_def str_lower_def lower_cp_def
        code_points_def)
  from paid_replay [OF demo_gate_paid first' found1' paid1', where ?e2.0 = ?e2]
  obtain r2 d2 l2 p2 where
    "phonepe_callback demo_cfg demo_lib ?e2 (callback_request paid_envelope) ?d1' = (r2, d2, l2)"
    "payment_by_order d2 (py_str (PyStr ''ADM42171700000001'')) = Some p2" "status p2 = Paid"
    "admissions d2 = admissions ?d1'"
    "r2 = HttpResponse ''OK'' 200
     \<and> l2 = (if SEND_PAYMENT_NOTIFICATIONS demo_cfg then attempts demo_cfg ?e2 else [])
     \<and> notified_at p2 = (if SEND_PAYMENT_NOTIFICATIONS demo_cfg \<and> channel_success demo_cfg ?e2
                         then Some (now_notified ?e2) else None)"
    using n1'(1) world(1) by blast
  then have "phonepe_callback demo_cfg demo_lib ?e2 (callback_request paid_envelope) ?d1'
           = (HttpResponse ''OK'' 200, d2, [(SMS, True)])
         \<and> payment_by_order d2 ''ADM42171700000001'' = Some p2 \<and> status p2 = Paid
         \<and> notified_at p2 = Some 200
         \<and> map fee_paid (admissions d2) = [1500]
         \<and> map fee_status (admissions d2) = [FeePaid]"
    using world by (simp add: demo_admission_def)
  then have second': "\<exists>d2 p2.
         phonepe_callback demo_cfg demo_lib ?e2 (callback_request paid_envelope) ?d1'
           = (HttpResponse ''OK'' 200, d2, [(SMS, True)])
         \<and> payment_by_order d2 ''ADM42171700000001'' = Some p2 \<and> status p2 = Paid
         \<and> notified_at p2 = Some 200
         \<and> map fee_paid (admissions d2) = [1500]
         \<and> map fee_status (admissions d2) = [FeePaid]"
    by (intro exI)
  show ?thesis
    by (intro conjI) (rule demo_gate_paid, rule first, rule second, rule first', rule second')
qed

section \<open>Further properties\<close>

text \<open>
  X1. The provider-A check returns a verdict (it raises nothing) when the signature
  and the computed digest are ASCII. Whenever it returns False for the order id of an
  existing payment, redirect-verify stores that payment as Failed with the offered
  payment id and signature, leaves its other columns (\<open>paid_at\<close> among them) and the
  admissions as they were, and answers with the verification error.
\<close>

theorem invalid_signature_marks_failed:
  "(is_ascii sig \<and> is_ascii (hmac_sha256_hexdigest lib (utf8 key_secret) (utf8 (order @ ''|'' @ payid)))
      \<longrightarrow> (\<exists>b. verify_razorpay_signature lib order payid sig key_secret = Inr b))
   \<and> (verify_razorpay_signature lib order payid sig (RAZORPAY_KEY_SECRET cfg) = Inr False
        \<and> payment_by_order d order = Some pay
      \<longrightarrow> payment_verify cfg lib e order payid sig d
            = (Redirect (AdmissionSuccess (admission_id pay)) MsgError
                 ''Payment verification failed.'',
               save_payment [F_status, F_payment_id, F_signature]
                 (pay\<lparr>status := Failed, payment_id := payid, signature := sig\<rparr>) d, [])
          \<and> payment_by_order (fst (snd (payment_verify cfg lib e order payid sig d))) order
            = Some (pay\<lparr>status := Failed, payment_id := payid, signature := sig\<rparr>)
          \<and> admissions (fst (snd (payment_verify cfg lib e order payid sig d))) = admissions d)"
  by (auto simp: verify_razorpay_signature_def compare_digest_def payment_verify_def
      payment_by_order_save_payment written_def)

theorem invalid_signature_marks_failed_witness:
  "is_ascii ''forged''
   \<and> verify_razorpay_signature demo_lib ''ADM42171700000001'' ''pay_1'' ''forged''
        (RAZORPAY_KEY_SECRET demo_cfg) = Inr False
   \<and> payment_by_order demo_db ''ADM42171700000001'' = Some demo_payment
   \<and> payment_by_order
        (fst (snd (payment_verify demo_cfg demo_lib (demo_env 100 URLError)
                     ''ADM42171700000001'' ''pay_1'' ''forged'' demo_db)))
        ''ADM42171700000001''
       = Some (demo_payment\<lparr>status := Failed, payment_id := ''pay_1'', signature := ''forged''\<rparr>)"
proof -
  have h1: "is_ascii ''forged''"
    by (simp add: is_ascii_def)
  have h2: "verify_razorpay_signature demo_lib ''ADM42171700000001'' ''pay_1'' ''forged''
        (RAZORPAY_KEY_SECRET demo_cfg) = Inr False"
    by (simp add: demo_defs view_defs)
  have h3: "payment_by_order demo_db ''ADM42171700000001'' = Some demo_payment"
    by (simp add: demo_db_def demo_payment_def payment_by_order_def)
  show ?thesis
    using h1 h2 h3
      invalid_signature_marks_failed [where lib = demo_lib and order = "''ADM42171700000001''"
        and payid = "''pay_1''" and sig = "''forged''" and cfg = demo_cfg and d = demo_db
        and pay = demo_payment and e = "demo_env 100 URLError"]
    by blast
qed

text \<open>
  X2. A callback or a poll (for an admission id below \<open>2 ^ 63\<close>) whose payload resolves
  to the status \<open>st\<close> leaves the payment it finds with status \<open>st\<close>, whatever its status
  was: Paid stays Paid exactly when the outcome maps to Paid. The payment's \<open>paid_at\<close>
  becomes the current time when \<open>st\<close> is Paid and keeps its value otherwise. The view
  answers with its success response unless a notification request, sent because \<open>st\<close>
  is Paid and the payment has not been notified, raises.
\<close>

theorem outcome_applied:
  "(callback_gate cfg lib req = Inr (k, dec) \<and> payment_by_order d (py_str k) = Some pay
      \<and> resolved dec = Inr (payid, refid, st)
     \<longrightarrow> fst (phonepe_callback cfg lib e req d)
           = (case (if st = Paid \<and> SEND_PAYMENT_NOTIFICATIONS cfg \<and> notified_at pay = None
                    then escaping cfg e else None) of
                None \<Rightarrow> HttpResponse ''OK'' 200
              | Some x \<Rightarrow> Raised x)
         \<and> map_option status (payment_by_order (fst (snd (phonepe_callback cfg lib e req d))) (py_str k))
           = Some st
         \<and> map_option paid_at (payment_by_order (fst (snd (phonepe_callback cfg lib e req d))) (py_str k))
           = Some (if st = Paid then Some (now_paid e) else paid_at pay))
   \<and> (adm < 2 ^ 63 \<and> payment_by_admission d adm = Some pay \<and> order_id pay \<noteq> []
      \<and> phonepe_fetch_status cfg lib e (order_id pay) = Fetched dec
      \<and> resolved dec = Inr (payid, refid, st)
     \<longrightarrow> fst (phonepe_status_check cfg lib e adm d)
           = (case (if st = Paid \<and> SEND_PAYMENT_NOTIFICATIONS cfg \<and> notified_at pay = None
                    then escaping cfg e else None) of
                None \<Rightarrow> Redirect (AdmissionSuccess adm) MsgInfo ''PhonePe status updated.''
              | Some x \<Rightarrow> Raised x)
         \<and> map_option status (payment_by_admission (fst (snd (phonepe_status_check cfg lib e adm d))) adm)
           = Some st
         \<and> map_option paid_at (payment_by_admission (fst (snd (phonepe_status_check cfg lib e adm d))) adm)
           = Some (if st = Paid then Some (now_paid e) else paid_at pay))"
proof (intro conjI impI)
  assume a: "callback_gate cfg lib req = Inr (k, dec) \<and> payment_by_order d (py_str k) = Some pay
      \<and> resolved dec = Inr (payid, refid, st)"
  then have cb: "phonepe_callback cfg lib e req d
         = (case snd (snd (store cfg e pay dec (payid, refid, st) d)) of
              None \<Rightarrow> HttpResponse ''OK'' 200
            | Some x \<Rightarrow> Raised x,
            fst (store cfg e pay dec (payid, refid, st) d),
            fst (snd (store cfg e pay dec (payid, refid, st) d)))"
    by (simp add: callback_found)
  show "fst (phonepe_callback cfg lib e req d)
           = (case (if st = Paid \<and> SEND_PAYMENT_NOTIFICATIONS cfg \<and> notified_at pay = None
                    then escaping cfg e else None) of
                None \<Rightarrow> HttpResponse ''OK'' 200
              | Some x \<Rightarrow> Raised x)"
    by (simp add: cb store_effect(4))
  show "map_option status (payment_by_order (fst (snd (phonepe_callback cfg lib e req d))) (py_str k))
           = Some st"
    using a by (simp add: cb payment_by_order_store row_effect_def)
  show "map_option paid_at (payment_by_order (fst (snd (phonepe_callback cfg lib e req d))) (py_str k))
           = Some (if st = Paid then Some (now_paid e) else paid_at pay)"
    using a by (simp add: cb payment_by_order_store row_effect_def)
next
  assume a: "adm < 2 ^ 63 \<and> payment_by_admission d adm = Some pay \<and> order_id pay \<noteq> []
      \<and> phonepe_fetch_status cfg lib e (order_id pay) = Fetched dec
      \<and> resolved dec = Inr (payid, refid, st)"
  then have inside: "\<not> max_db_integer < adm"
    by (simp add: max_db_integer_def)
  have po: "phonepe_status_check cfg lib e adm d
         = (case snd (snd (store cfg e pay dec (payid, refid, st) d)) of
              None \<Rightarrow> Redirect (AdmissionSuccess adm) MsgInfo ''PhonePe status updated.''
            | Some x \<Rightarrow> Raised x,
            fst (store cfg e pay dec (payid, refid, st) d),
            fst (snd (store cfg e pay dec (payid, refid, st) d)))"
    using a inside
    by (simp add: phonepe_status_check_def update_via_resolved split: prod.split option.split)
  show "fst (phonepe_status_check cfg lib e adm d)
           = (case (if st = Paid \<and> SEND_PAYMENT_NOTIFICATIONS cfg \<and> notified_at pay = None
                    then escaping cfg e else None) of
                None \<Rightarrow> Redirect (AdmissionSuccess adm) MsgInfo ''PhonePe status updated.''
              | Some x \<Rightarrow> Raised x)"
    by (simp add: po store_effect(4))
  show "map_option status (payment_by_admission (fst (snd (phonepe_status_check cfg lib e adm d))) adm)
           = Some st"
    using a by (simp add: po payment_by_admission_store row_effect_def)
  show "map_option paid_at (payment_by_admission (fst (snd (phonepe_status_check cfg lib e adm d))) adm)
           = Some (if st = Paid then Some (now_paid e) else paid_at pay)"
    using a by (simp add: po payment_by_admission_store row_effect_def)
qed

theorem outcome_applied_witness:
  "callback_gate demo_cfg demo_lib (callback_request paid_envelope)
     = Inr (PyStr ''ADM42171700000001'', paid_payload)
   \<and> payment_by_order demo_db (py_str (PyStr ''ADM42171700000001'')) = Some demo_payment
   \<and> resolved paid_payload = Inr (''T1'', ''U1'', Paid)
   \<and> map_option status (payment_by_order (fst (snd (phonepe_callback demo_cfg demo_lib
          (demo_env 100 URLError) (callback_request paid_envelope) demo_db)))
          (py_str (PyStr ''ADM42171700000001''))) = Some Paid
   \<and> map_option paid_at (payment_by_admission (fst (snd (phonepe_status_check demo_cfg demo_lib
          (demo_env 100 URLError) 42 paid_db))) 42) = Some (Some 50)
   \<and> map_option status (payment_by_admission (fst (snd (phonepe_status_check demo_cfg demo_lib
          (demo_env 100 URLError) 42 paid_db))) 42) = Some Failed"
proof -
  let ?pay = "demo_payment\<lparr>status := Paid, paid_at := Some 50, notified_at := Some 50\<rparr>"
  have h1: "payment_by_order demo_db (py_str (PyStr ''ADM42171700000001'')) = Some demo_payment"
    by (simp add: payment_by_order_def demo_db_def demo_payment_def)
  have h2: "(42 :: nat) < 2 ^ 63 \<and> payment_by_admission paid_db 42 = Some ?pay \<and> order_id ?pay \<noteq> []
      \<and> phonepe_fetch_status demo_cfg demo_lib (demo_env 100 URLError) (order_id ?pay)
          = Fetched failed_payload"
    by (simp add: payment_by_admission_def paid_db_def demo_payment_def phonepe_fetch_status_def
        demo_cfg_def demo_env_def)
  have h3: "paid_at ?pay = Some 50" "Failed \<noteq> Paid"
    by simp_all
  show ?thesis
    using demo_gate_paid h1 h2 h3 demo_resolved
      outcome_applied [where cfg = demo_cfg and lib = demo_lib
        and req = "callback_request paid_envelope" and k = "PyStr ''ADM42171700000001''"
        and dec = paid_payload and d = demo_db and pay = demo_payment and payid = "''T1''"
        and refid = "''U1''" and st = Paid and e = "demo_env 100 URLError"]
      outcome_applied [where cfg = demo_cfg and lib = demo_lib and d = paid_db and adm = 42
        and pay = ?pay and dec = failed_payload and payid = "''T1''" and refid = "''U1''"
        and st = Failed and e = "demo_env 100 URLError"]
    by simp
qed

text \<open>
  X3. With unique keys, any sequence of redirect-verifies, callbacks and polls keeps
  this half of the fee invariant: whenever a payment is Paid, its admission has fee
  status Paid and fee paid equal to the payment's amount.
\<close>

theorem paid_payment_means_paid_fee:
  "well_keyed d \<and> paid_in_step d
   \<longrightarrow> well_keyed (run cfg lib evs d) \<and> paid_in_step (run cfg lib evs d)"
proof (induction evs arbitrary: d)
  case Nil
  show ?case by simp
next
  case (Cons x evs)
  obtain e ev where x: "x = (e, ev)" by (cases x) auto
  show ?case
    using Cons.IH [of "fst (snd (reconcile cfg lib e ev d))"]
      reconcile_keeps_invariant [of d cfg lib e ev]
    by (simp add: x)
qed

theorem paid_payment_means_paid_fee_witness:
  "well_keyed demo_db \<and> paid_in_step demo_db
   \<and> paid_in_step (run demo_cfg demo_lib
        [(demo_env 100 URLError, Callback (callback_request paid_envelope)),
         (demo_env 200 URLError, RedirectVerify ''ADM42171700000001'' ''pay_1'' ''forged''),
         (demo_env 300 URLError, Poll 42)] demo_db)"
proof -
  have h: "well_keyed demo_db \<and> paid_in_step demo_db"
    by (simp add: well_keyed_def paid_in_step_def demo_db_def demo_payment_def)
  show ?thesis
    using h paid_payment_means_paid_fee [where d = demo_db and cfg = demo_cfg and lib = demo_lib
        and evs = "[(demo_env 100 URLError, Callback (callback_request paid_envelope)),
         (demo_env 200 URLError, RedirectVerify ''ADM42171700000001'' ''pay_1'' ''forged''),
         (demo_env 300 URLError, Poll 42)]"]
    by blast
qed

text \<open>
  X4. \<open>maybe_send_payment_notifications\<close> changes nothing, sends nothing and raises
  nothing when notifications are disabled or \<open>notified_at\<close> is already set. Otherwise
  it sends one request per configured channel, up to the first that raises. When none
  raises (each gets a response or fails with \<^verbatim>\<open>URLError\<close>), the notifier raises nothing
  and the stored payment's \<open>notified_at\<close> becomes the current time exactly when some
  configured channel reported success; when none did, it stays null. No other column
  and no admission changes. When a request raises, the exception leaves the notifier
  and the database is as it was.
\<close>

theorem notifier_contract:
  "(\<not> SEND_PAYMENT_NOTIFICATIONS cfg \<or> notified_at p \<noteq> None
      \<longrightarrow> maybe_send_payment_notifications cfg e p d = (d, [], None))
   \<and> (SEND_PAYMENT_NOTIFICATIONS cfg \<and> notified_at p = None \<and> payment_row d (payment_pk p) = Some p
       \<and> escaping cfg e = None
      \<longrightarrow> snd (snd (maybe_send_payment_notifications cfg e p d)) = None
          \<and> payment_row (fst (maybe_send_payment_notifications cfg e p d)) (payment_pk p)
            = Some (p\<lparr>notified_at := if channel_success cfg e then Some (now_notified e) else None\<rparr>)
          \<and> admissions (fst (maybe_send_payment_notifications cfg e p d)) = admissions d
          \<and> without_stamps (payments (fst (maybe_send_payment_notifications cfg e p d)))
              = without_stamps (payments d)
          \<and> fst (snd (maybe_send_payment_notifications cfg e p d)) = attempts cfg e)
   \<and> (SEND_PAYMENT_NOTIFICATIONS cfg \<and> notified_at p = None \<and> escaping cfg e = Some x
      \<longrightarrow> maybe_send_payment_notifications cfg e p d = (d, attempts cfg e, Some x))"
proof (intro conjI impI)
  assume "\<not> SEND_PAYMENT_NOTIFICATIONS cfg \<or> notified_at p \<noteq> None"
  then show "maybe_send_payment_notifications cfg e p d = (d, [], None)" by (rule notify_off)
next
  assume a: "SEND_PAYMENT_NOTIFICATIONS cfg \<and> notified_at p = None
    \<and> payment_row d (payment_pk p) = Some p \<and> escaping cfg e = None"
  then have eq: "maybe_send_payment_notifications cfg e p d =
     (if channel_success cfg e
      then save_payment [F_notified_at] (p\<lparr>notified_at := Some (now_notified e)\<rparr>) d else d,
      attempts cfg e, None)" by (simp add: notify_on)
  show "snd (snd (maybe_send_payment_notifications cfg e p d)) = None"
    by (simp add: eq)
  show "payment_row (fst (maybe_send_payment_notifications cfg e p d)) (payment_pk p)
            = Some (p\<lparr>notified_at := if channel_success cfg e then Some (now_notified e) else None\<rparr>)"
    using a by (simp add: eq payment_row_save_payment written_def)
  show "admissions (fst (maybe_send_payment_notifications cfg e p d)) = admissions d"
    by (simp add: eq)
  show "without_stamps (payments (fst (maybe_send_payment_notifications cfg e p d))) = without_stamps (payments d)"
    by (simp add: eq payments_save_payment without_stamps_def written_def)
  show "fst (snd (maybe_send_payment_notifications cfg e p d)) = attempts cfg e"
    by (simp add: eq)
next
  assume "SEND_PAYMENT_NOTIFICATIONS cfg \<and> notified_at p = None \<and> escaping cfg e = Some x"
  then show "maybe_send_payment_notifications cfg e p d = (d, attempts cfg e, Some x)"
    by (simp add: notify_escapes)
qed

theorem notifier_contract_witness:
  "SEND_PAYMENT_NOTIFICATIONS demo_cfg \<and> notified_at demo_payment = None
   \<and> payment_row demo_db (payment_pk demo_payment) = Some demo_payment
   \<and> escaping demo_cfg (demo_env 100 (Responded 201)) = None
   \<and> escaping demo_cfg (demo_env 100 URLError) = None
   \<and> payment_row (fst (maybe_send_payment_notifications demo_cfg (demo_env 100 (Responded 201))
                          demo_payment demo_db)) (payment_pk demo_payment)
       = Some (demo_payment\<lparr>notified_at := Some 100\<rparr>)
   \<and> payment_row (fst (maybe_send_payment_notifications demo_cfg (demo_env 100 URLError)
                          demo_payment demo_db)) (payment_pk demo_payment)
       = Some demo_payment
   \<and> snd (snd (maybe_send_payment_notifications demo_cfg (demo_env 100 URLError)
                  demo_payment demo_db)) = None"
proof -
  have h: "SEND_PAYMENT_NOTIFICATIONS demo_cfg \<and> notified_at demo_payment = None
           \<and> payment_row demo_db (payment_pk demo_payment) = Some demo_payment"
    by (simp add: demo_cfg_def demo_payment_def demo_db_def payment_row_def)
  have q: "escaping demo_cfg (demo_env 100 (Responded 201)) = None"
    "escaping demo_cfg (demo_env 100 URLError) = None"
    by (simp_all add: escaping_def sms_configured_def whatsapp_configured_def demo_cfg_def
        demo_env_def str_lower_def lower_cp_def code_points_def)
  have up: "channel_success demo_cfg (demo_env 100 (Responded 201))"
    by (simp add: channel_success_def sms_configured_def demo_cfg_def demo_env_def
        str_lower_def lower_cp_def code_points_def)
  have down: "\<not> channel_success demo_cfg (demo_env 100 URLError)"
    by (simp add: channel_success_def whatsapp_configured_def demo_cfg_def demo_env_def
        str_lower_def code_points_def)
  have n: "now_notified (demo_env 100 (Responded 201)) = 100"
    by (simp add: demo_env_def)
  have z: "demo_payment\<lparr>notified_at := None\<rparr> = demo_payment"
    by (simp add: demo_payment_def)
  show ?thesis
    using h q up down n z
      notifier_contract [where cfg = demo_cfg and p = demo_payment and d = demo_db
        and e = "demo_env 100 (Responded 201)"]
      notifier_contract [where cfg = demo_cfg and p = demo_payment and d = demo_db
        and e = "demo_env 100 URLError"]
    by simp
qed

end
